theory Spec2Isabelle
  imports Main "HOL-Library.Word"
begin

unbundle bit_operations_syntax

section \<open>Constants\<close>

text \<open>
  Linux error numbers used by the driver (returned negated), the transmit return codes of
  the network stack, the Ethernet constants of the kernel headers (protocol numbers in host
  byte order), and the constants of the WWAN driver and its header.
\<close>

definition EIO :: int where "EIO = 5"
definition EXDEV :: int where "EXDEV = 18"
definition ENODEV :: int where "ENODEV = 19"
definition EINVAL :: int where "EINVAL = 22"

definition NETDEV_TX_OK :: int where "NETDEV_TX_OK = 0"
definition NETDEV_TX_BUSY :: int where "NETDEV_TX_BUSY = 16"

definition WWAN_DEFAULT_TXQ :: "16 word" where "WWAN_DEFAULT_TXQ = 0"
definition WWAN_ROOT_VLAN_TAG :: "16 word" where "WWAN_ROOT_VLAN_TAG = 0"
definition IPC_MEM_VLAN_TO_SESSION :: int where "IPC_MEM_VLAN_TO_SESSION = 1"
definition IPC_WWAN_ALIGN :: nat where "IPC_WWAN_ALIGN = 4"

definition IMEM_WWAN_DATA_VLAN_ID_START :: int where "IMEM_WWAN_DATA_VLAN_ID_START = 1"
definition IMEM_WWAN_CTRL_VLAN_ID_START :: int where "IMEM_WWAN_CTRL_VLAN_ID_START = 257"
definition IMEM_WWAN_CTRL_VLAN_ID_END :: int where "IMEM_WWAN_CTRL_VLAN_ID_END = 512"

definition ETH_ALEN :: nat where "ETH_ALEN = 6"
definition ETH_HLEN :: nat where "ETH_HLEN = 14"
definition VLAN_ETH_HLEN :: nat where "VLAN_ETH_HLEN = 18"
definition ETH_P_802_3 :: "16 word" where "ETH_P_802_3 = 0x0001"
definition ETH_P_IP :: "16 word" where "ETH_P_IP = 0x0800"
definition ETH_P_8021Q :: "16 word" where "ETH_P_8021Q = 0x8100"
definition ETH_P_IPV6 :: "16 word" where "ETH_P_IPV6 = 0x86DD"

section \<open>Socket buffers\<close>

text \<open>
  \<^verbatim>\<open>struct sk_buff\<close>, as far as the driver uses it. The buffer of a socket buffer is
  the bytes from \<^verbatim>\<open>head\<close> to \<^verbatim>\<open>end\<close>: the headroom, then the \<^verbatim>\<open>len\<close>
  bytes at \<^verbatim>\<open>data\<close>, then the tailroom.
  \<^item> \<open>protocol\<close> is \<^verbatim>\<open>skb->protocol\<close> in host byte order;
  \<^item> \<open>vlan_tci\<close> is what the kernel's \<^verbatim>\<open>vlan_get_tag\<close> finds: \<open>Some tci\<close> when it
    returns 0 and stores \<open>tci\<close>, \<open>None\<close> when it returns an error and stores nothing;
  \<^item> \<open>mac_header\<close> is the offset of the link-layer header from \<^verbatim>\<open>head\<close>;
  \<^item> \<open>data\<close> is \<open>None\<close> when the pointer \<^verbatim>\<open>skb->data\<close> is NULL;
  \<^item> \<open>head_addr\<close> is the address \<^verbatim>\<open>skb->head\<close>.
\<close>

record sk_buff =
  protocol :: "16 word"
  vlan_tci :: "16 word option"
  mac_header :: nat
  head_room :: "8 word list"
  data :: "8 word list option"
  tail_room :: "8 word list"
  head_addr :: nat

definition skb_bytes :: "sk_buff \<Rightarrow> 8 word list" where
  "skb_bytes skb = (case data skb of None \<Rightarrow> [] | Some d \<Rightarrow> d)"

definition skb_len :: "sk_buff \<Rightarrow> nat" where
  "skb_len skb = length (skb_bytes skb)"

definition skb_buf :: "sk_buff \<Rightarrow> 8 word list" where
  "skb_buf skb = head_room skb @ skb_bytes skb @ tail_room skb"

definition skb_data_addr :: "sk_buff \<Rightarrow> nat" where
  "skb_data_addr skb = head_addr skb + length (head_room skb)"

text \<open>A big-endian 16-bit field at offset \<open>off\<close> of a buffer; \<open>None\<close> outside it.\<close>

definition be16_at :: "8 word list \<Rightarrow> nat \<Rightarrow> 16 word option" where
  "be16_at buf off =
     (if off + 1 < length buf
      then Some (push_bit 8 (ucast (buf ! off)) OR ucast (buf ! (off + 1)))
      else None)"

definition be16_bytes :: "16 word \<Rightarrow> 8 word list" where
  "be16_bytes w = [ucast (drop_bit 8 w), ucast w]"

text \<open>
  \<^verbatim>\<open>eth_hdr(skb)->h_proto\<close> and \<^verbatim>\<open>vlan_eth_hdr(skb)->h_vlan_encapsulated_proto\<close>:
  the fields at offsets 12 and 16 of the link-layer header.
\<close>

definition eth_hdr_h_proto :: "sk_buff \<Rightarrow> 16 word option" where
  "eth_hdr_h_proto skb = be16_at (skb_buf skb) (mac_header skb + 12)"

definition vlan_eth_hdr_h_vlan_encapsulated_proto :: "sk_buff \<Rightarrow> 16 word option" where
  "vlan_eth_hdr_h_vlan_encapsulated_proto skb = be16_at (skb_buf skb) (mac_header skb + 16)"

text \<open>
  The kernel's buffer helpers. \<^verbatim>\<open>skb_pull\<close> returns NULL (\<open>None\<close>) and changes
  nothing when fewer than \<open>n\<close> bytes are left. \<^verbatim>\<open>skb_push\<close> panics when the
  headroom is shorter than \<open>n\<close>; otherwise it returns the new, non-NULL data pointer.
  \<^verbatim>\<open>skb_reserve\<close> moves \<^verbatim>\<open>data\<close> and \<^verbatim>\<open>tail\<close> forward without a check.
  \<open>skb_put_data\<close> is \<^verbatim>\<open>memcpy(skb->data, src, n)\<close> followed by
  \<^verbatim>\<open>skb_put(skb, n)\<close>, which panics when the buffer is too short.
\<close>

definition skb_pull :: "sk_buff \<Rightarrow> nat \<Rightarrow> sk_buff option" where
  "skb_pull skb n =
     (if skb_len skb < n then None
      else Some (skb\<lparr>head_room := head_room skb @ take n (skb_bytes skb),
                     data := map_option (drop n) (data skb)\<rparr>))"

definition skb_push :: "sk_buff \<Rightarrow> nat \<Rightarrow> sk_buff option" where
  "skb_push skb n =
     (if length (head_room skb) < n then None
      else
        let k = length (head_room skb) - n
        in Some (skb\<lparr>head_room := take k (head_room skb),
                     data := map_option (\<lambda>d. drop k (head_room skb) @ d) (data skb)\<rparr>))"

definition skb_reserve :: "sk_buff \<Rightarrow> nat \<Rightarrow> sk_buff option" where
  "skb_reserve skb n =
     (if data skb = None \<or> length (tail_room skb) < n then None
      else
        let rest = skb_bytes skb @ tail_room skb
        in Some (skb\<lparr>head_room := head_room skb @ take n rest,
                     data := Some (take (skb_len skb) (drop n rest)),
                     tail_room := drop (n + skb_len skb) rest\<rparr>))"

definition skb_put_data :: "sk_buff \<Rightarrow> 8 word list \<Rightarrow> sk_buff option" where
  "skb_put_data skb src =
     (if data skb = None \<or> length (tail_room skb) < length src then None
      else
        let rest = src @ drop (length src) (skb_bytes skb @ tail_room skb)
        in Some (skb\<lparr>data := Some (take (skb_len skb + length src) rest),
                     tail_room := drop (skb_len skb + length src) rest\<rparr>))"

section \<open>The session table\<close>

text \<open>
  \<^verbatim>\<open>struct net_device_stats\<close>: the four counters the driver touches. They are
  \<^verbatim>\<open>unsigned long\<close> in C and wrap around; a 64-bit kernel is modelled.
\<close>

record net_device_stats =
  rx_packets :: "64 word"
  tx_packets :: "64 word"
  rx_bytes :: "64 word"
  tx_bytes :: "64 word"

text \<open>
  \<^verbatim>\<open>struct ipc_vlan_info\<close>. The two \<^verbatim>\<open>int\<close> fields only ever hold a stored
  tag, a value returned by the IPC layer, or -1; no arithmetic is done on them, so they are
  plain integers.
\<close>

record ipc_vlan_info =
  vlan_id :: int
  ch_id :: int
  stats :: net_device_stats

text \<open>
  \<^verbatim>\<open>struct iosm_wwan\<close>, with the two parts of \<^verbatim>\<open>*netdev\<close> the driver reads or
  writes (\<^verbatim>\<open>dev_addr\<close> and \<^verbatim>\<open>stats\<close>) flattened into it. \<open>vlan_devs\<close> is
  \<open>None\<close> for a NULL pointer, otherwise the allocated array; its length is the number of
  allocated elements. The lock, the mutex and the device pointers carry no data.
\<close>

record iosm_wwan =
  vlan_devs :: "ipc_vlan_info list option"
  vlan_devs_nr :: int
  max_devs :: int
  max_ip_devs :: int
  is_registered :: bool
  dev_addr :: "nat \<Rightarrow> 8 word"
  ndev_stats :: net_device_stats

text \<open>
  What the driver does to the world outside \<^verbatim>\<open>struct iosm_wwan\<close>, in call order:
  the calls into the IPC memory layer, the release of a socket buffer, and the delivery
  of a socket buffer to the network stack.
\<close>

datatype event =
    Imem_sys_wwan_open int
  | Imem_sys_wwan_close int int
  | Imem_sys_wwan_transmit int int sk_buff
  | Dev_kfree_skb sk_buff
  | Netif_rx_ni sk_buff

text \<open>
  Every operation returns \<open>None\<close> when the C code leaves defined behaviour: an access
  to \<open>vlan_devs[i]\<close> with \<open>i\<close> outside the allocated array, an access outside a socket
  buffer, or a kernel panic raised by a socket-buffer helper.
\<close>

subsection \<open>Lookup\<close>

text \<open>The loop of \<^verbatim>\<open>ipc_wwan_get_vlan_devs_nr\<close>, from index \<open>i\<close> on.\<close>

function vlan_devs_scan :: "ipc_vlan_info list \<Rightarrow> int \<Rightarrow> int \<Rightarrow> nat \<Rightarrow> int option" where
  "vlan_devs_scan devs nr tag i =
     (if int i < nr then
        (if i < length devs then
           (if vlan_id (devs ! i) = tag then Some (int i)
            else vlan_devs_scan devs nr tag (Suc i))
         else None)
      else Some (- EINVAL))"
  by pat_completeness auto
termination
  by (relation "measure (\<lambda>(devs, nr, tag, i). nat nr - i)") auto

declare vlan_devs_scan.simps [simp del]

definition ipc_wwan_get_vlan_devs_nr :: "iosm_wwan \<Rightarrow> 16 word \<Rightarrow> int option" where
  "ipc_wwan_get_vlan_devs_nr ipc_wwan tag =
     (case vlan_devs ipc_wwan of
        Some devs \<Rightarrow> vlan_devs_scan devs (vlan_devs_nr ipc_wwan) (uint tag) 0
      | None \<Rightarrow> Some (- EINVAL))"

subsection \<open>Adding a session\<close>

text \<open>
  \<^verbatim>\<open>ipc_wwan_add_vlan\<close>. \<open>wwan_open\<close> is \<^verbatim>\<open>imem_sys_wwan_open\<close> of the IPC
  memory layer on \<^verbatim>\<open>ops_instance\<close>, taken as a parameter: it maps the VLAN id to a
  channel id, negative on failure. The result is the return value, the new state and the
  events of the call. The channel id is written into slot \<open>vlan_devs_nr\<close> before it is
  tested, as in the source.
\<close>

definition ipc_wwan_add_vlan ::
  "(int \<Rightarrow> int) \<Rightarrow> iosm_wwan \<Rightarrow> 16 word \<Rightarrow> (int \<times> iosm_wwan \<times> event list) option" where
  "ipc_wwan_add_vlan wwan_open ipc_wwan vid =
     (if 512 \<le> uint vid \<or> vlan_devs ipc_wwan = None then Some (- EINVAL, ipc_wwan, [])
      else if vid = WWAN_ROOT_VLAN_TAG then Some (0, ipc_wwan, [])
      else
        (case vlan_devs ipc_wwan of
           None \<Rightarrow> Some (- EINVAL, ipc_wwan, [])
         | Some devs \<Rightarrow>
             let nr = vlan_devs_nr ipc_wwan in
             if nr < 0 \<or> int (length devs) \<le> nr then None
             else
               let n = nat nr;
                   ch = wwan_open (uint vid);
                   devs1 = devs[n := (devs ! n)\<lparr>ch_id := ch\<rparr>]
               in if ch < 0
                  then Some (- ENODEV, ipc_wwan\<lparr>vlan_devs := Some devs1\<rparr>,
                             [Imem_sys_wwan_open (uint vid)])
                  else
                    let devs2 = devs1[n := (devs1 ! n)\<lparr>vlan_id := uint vid\<rparr>]
                    in Some (0, ipc_wwan\<lparr>vlan_devs := Some devs2, vlan_devs_nr := nr + 1\<rparr>,
                             [Imem_sys_wwan_open (uint vid)])))"

subsection \<open>Removing a session\<close>

text \<open>
  The re-alignment loop of \<^verbatim>\<open>ipc_wwan_remove_vlan\<close>, from index \<open>i\<close> on: each
  \<^verbatim>\<open>memcpy\<close> copies element \<open>i + 1\<close> over element \<open>i\<close>, for every \<open>i\<close> below
  \<open>vlan_devs_nr\<close>, the last live index included.
\<close>

function vlan_devs_realign :: "ipc_vlan_info list \<Rightarrow> int \<Rightarrow> nat \<Rightarrow> ipc_vlan_info list option" where
  "vlan_devs_realign devs nr i =
     (if int i < nr then
        (if Suc i < length devs then vlan_devs_realign (devs[i := devs ! Suc i]) nr (Suc i)
         else None)
      else Some devs)"
  by pat_completeness auto
termination
  by (relation "measure (\<lambda>(devs, nr, i). nat nr - i)") auto

declare vlan_devs_realign.simps [simp del]

text \<open>
  \<^verbatim>\<open>ipc_wwan_remove_vlan\<close>. \<^verbatim>\<open>imem_sys_wwan_close\<close> returns nothing, so it
  only appears as an event.
\<close>

definition ipc_wwan_remove_vlan ::
  "iosm_wwan \<Rightarrow> 16 word \<Rightarrow> (int \<times> iosm_wwan \<times> event list) option" where
  "ipc_wwan_remove_vlan ipc_wwan vid =
     (case ipc_wwan_get_vlan_devs_nr ipc_wwan vid of
        None \<Rightarrow> None
      | Some ch_nr \<Rightarrow>
          if ch_nr < 0 then Some (ch_nr, ipc_wwan, [])
          else
            (case vlan_devs ipc_wwan of
               None \<Rightarrow> None
             | Some devs \<Rightarrow>
                 let n = nat ch_nr in
                 if length devs \<le> n then None
                 else if ch_id (devs ! n) < 0 then Some (- EINVAL, ipc_wwan, [])
                 else
                   let ch = ch_id (devs ! n);
                       devs1 = devs[n := (devs ! n)\<lparr>ch_id := - 1\<rparr>]
                   in (case vlan_devs_realign devs1 (vlan_devs_nr ipc_wwan) n of
                         None \<Rightarrow> None
                       | Some devs2 \<Rightarrow>
                           Some (0,
                                 ipc_wwan\<lparr>vlan_devs := Some devs2,
                                          vlan_devs_nr := vlan_devs_nr ipc_wwan - 1\<rparr>,
                                 [Imem_sys_wwan_close (uint vid) ch]))))"

subsection \<open>Session id and VLAN tag\<close>

text \<open>
  \<^verbatim>\<open>(u16)(id + IPC_MEM_VLAN_TO_SESSION)\<close>: the cast keeps the low 16 bits, which are
  the same whether or not the \<^verbatim>\<open>int\<close> addition wrapped.
\<close>

definition ipc_wwan_mux_session_to_vlan_tag :: "int \<Rightarrow> 16 word" where
  "ipc_wwan_mux_session_to_vlan_tag sid = word_of_int (sid + IPC_MEM_VLAN_TO_SESSION)"

definition ipc_wwan_vlan_to_mux_session_id :: "16 word \<Rightarrow> int" where
  "ipc_wwan_vlan_to_mux_session_id tag = uint tag - IPC_MEM_VLAN_TO_SESSION"

subsection \<open>Statistics\<close>

definition stats_add :: "bool \<Rightarrow> 64 word \<Rightarrow> net_device_stats \<Rightarrow> net_device_stats" where
  "stats_add tx len st =
     (if tx then st\<lparr>tx_packets := tx_packets st + 1, tx_bytes := tx_bytes st + len\<rparr>
      else st\<lparr>rx_packets := rx_packets st + 1, rx_bytes := rx_bytes st + len\<rparr>)"

text \<open>
  \<^verbatim>\<open>ipc_wwan_update_stats\<close>: \<open>sid\<close> is the source's \<^verbatim>\<open>id\<close> and
  \<open>len\<close> is a \<^verbatim>\<open>size_t\<close>. The function returns nothing; the result is the
  new state.
\<close>

definition ipc_wwan_update_stats :: "iosm_wwan \<Rightarrow> int \<Rightarrow> 64 word \<Rightarrow> bool \<Rightarrow> iosm_wwan option" where
  "ipc_wwan_update_stats ipc_wwan sid len tx =
     (case ipc_wwan_get_vlan_devs_nr ipc_wwan (ipc_wwan_mux_session_to_vlan_tag sid) of
        None \<Rightarrow> None
      | Some idx \<Rightarrow>
          if idx < 0 \<or> max_devs ipc_wwan \<le> idx then Some ipc_wwan
          else
            (case vlan_devs ipc_wwan of
               None \<Rightarrow> None
             | Some devs \<Rightarrow>
                 let n = nat idx in
                 if length devs \<le> n then None
                 else
                   let st = stats_add tx len (stats (devs ! n))
                   in Some (ipc_wwan
                         \<lparr>vlan_devs := Some (devs[n := (devs ! n)\<lparr>stats := st\<rparr>]),
                          ndev_stats := stats_add tx len (ndev_stats ipc_wwan)\<rparr>)))"

subsection \<open>Initialisation\<close>

text \<open>
  \<^verbatim>\<open>ipc_wwan_init\<close>, as far as it sets up \<^verbatim>\<open>struct iosm_wwan\<close>.
  \<^verbatim>\<open>IPC_MEM_MAX_CHANNELS\<close>, the number of built-in channels, is defined outside the
  driver and is a parameter. The outcomes of the kernel calls are parameters too: whether
  \<^verbatim>\<open>alloc_etherdev_mqs\<close> returned a device and \<^verbatim>\<open>ops_instance\<close> is not NULL,
  whether \<^verbatim>\<open>kcalloc\<close> returned memory, whether \<^verbatim>\<open>register_netdev\<close> succeeded,
  and the random address. \<^verbatim>\<open>kcalloc\<close> zeroes the array and cannot give memory for a
  negative element count. The result is \<open>None\<close> where the function returns NULL.
\<close>

definition vlan_info_zero :: ipc_vlan_info where
  "vlan_info_zero =
     \<lparr>vlan_id = 0, ch_id = 0,
      stats = \<lparr>rx_packets = 0, tx_packets = 0, rx_bytes = 0, tx_bytes = 0\<rparr>\<rparr>"

definition ipc_wwan_init ::
  "int \<Rightarrow> bool \<Rightarrow> bool \<Rightarrow> bool \<Rightarrow> (nat \<Rightarrow> 8 word) \<Rightarrow> int \<Rightarrow> iosm_wwan option" where
  "ipc_wwan_init IPC_MEM_MAX_CHANNELS netdev_ok kcalloc_ok register_ok random_addr max_sessions =
     (if \<not> netdev_ok then None
      else if \<not> register_ok then None
      else
        Some \<lparr>vlan_devs =
                 (if kcalloc_ok \<and> 0 \<le> max_sessions + IPC_MEM_MAX_CHANNELS
                  then Some (replicate (nat (max_sessions + IPC_MEM_MAX_CHANNELS)) vlan_info_zero)
                  else None),
              vlan_devs_nr = 0,
              max_devs = max_sessions + IPC_MEM_MAX_CHANNELS,
              max_ip_devs = max_sessions,
              is_registered = True,
              dev_addr = random_addr,
              ndev_stats = \<lparr>rx_packets = 0, tx_packets = 0, rx_bytes = 0, tx_bytes = 0\<rparr>\<rparr>)"

section \<open>Transmit path\<close>

text \<open>
  \<^verbatim>\<open>ipc_wwan_pull_header\<close>. The pointer argument \<^verbatim>\<open>bool *is_ip\<close> is \<open>None\<close>
  when NULL, otherwise the value it points to; the result is the returned header size, the
  socket buffer and the value behind the pointer afterwards. The protocol field is read
  before the length is tested, as in the source.
\<close>

definition ipc_wwan_pull_header ::
  "sk_buff \<Rightarrow> bool option \<Rightarrow> (nat \<times> sk_buff \<times> bool option) option" where
  "ipc_wwan_pull_header skb is_ip =
     (case (if protocol skb = ETH_P_8021Q
            then map_option
                   (\<lambda>proto. (proto, if skb_len skb < VLAN_ETH_HLEN then 0 else VLAN_ETH_HLEN))
                   (vlan_eth_hdr_h_vlan_encapsulated_proto skb)
            else map_option
                   (\<lambda>proto. (proto, if skb_len skb < ETH_HLEN then 0 else ETH_HLEN))
                   (eth_hdr_h_proto skb)) of
        None \<Rightarrow> None
      | Some (proto, header_size) \<Rightarrow>
          if 0 < header_size \<and> is_ip \<noteq> None then
            (case skb_pull skb header_size of
               None \<Rightarrow> Some (0, skb, Some (proto = ETH_P_IP \<or> proto = ETH_P_IPV6))
             | Some skb' \<Rightarrow>
                 Some (header_size, skb', Some (proto = ETH_P_IP \<or> proto = ETH_P_IPV6)))
          else Some (header_size, skb, is_ip))"

text \<open>
  \<^verbatim>\<open>ipc_wwan_skb_align\<close>. \<open>dev_alloc_skb\<close> is the kernel's allocator, a parameter:
  it maps the requested length to a fresh socket buffer, or to \<open>None\<close> when out of
  memory. The inner option of the result is the returned pointer, \<open>None\<close> for NULL.
\<close>

definition ipc_wwan_skb_align ::
  "(nat \<Rightarrow> sk_buff option) \<Rightarrow> sk_buff \<Rightarrow> sk_buff option option" where
  "ipc_wwan_skb_align dev_alloc_skb skb =
     (if skb_data_addr skb mod IPC_WWAN_ALIGN = 0 then Some (Some skb)
      else
        (case dev_alloc_skb (skb_len skb + (IPC_WWAN_ALIGN - 1)) of
           None \<Rightarrow> Some None
         | Some new_skb \<Rightarrow>
             let offset = skb_data_addr new_skb mod IPC_WWAN_ALIGN
             in (case (if offset \<noteq> 0 then skb_reserve new_skb (IPC_WWAN_ALIGN - offset)
                       else Some new_skb) of
                   None \<Rightarrow> None
                 | Some new_skb1 \<Rightarrow> map_option Some (skb_put_data new_skb1 (skb_bytes skb)))))"

text \<open>
  The end of \<^verbatim>\<open>ipc_wwan_transmit\<close>, from the call of the IPC layer on.
  \<open>wwan_transmit\<close> is \<^verbatim>\<open>imem_sys_wwan_transmit\<close> on \<^verbatim>\<open>ops_instance\<close>, a
  parameter. Since \<^verbatim>\<open>skb_push\<close> never returns NULL, the branch that would report
  \<^verbatim>\<open>-EIO\<close> after it cannot be taken.
\<close>

definition ipc_wwan_transmit_send ::
  "(int \<Rightarrow> int \<Rightarrow> sk_buff \<Rightarrow> int) \<Rightarrow> int \<Rightarrow> int \<Rightarrow> nat \<Rightarrow> sk_buff \<Rightarrow>
   (int \<times> sk_buff option \<times> event list) option" where
  "ipc_wwan_transmit_send wwan_transmit tag ch header_size skb =
     (let ret = wwan_transmit tag ch skb in
      if ret = 0 then Some (NETDEV_TX_OK, Some skb, [Imem_sys_wwan_transmit tag ch skb])
      else if ret = - 2 then
        (case skb_push skb header_size of
           None \<Rightarrow> None
         | Some skb' \<Rightarrow> Some (NETDEV_TX_BUSY, Some skb', [Imem_sys_wwan_transmit tag ch skb]))
      else Some (- EIO, Some skb, [Imem_sys_wwan_transmit tag ch skb, Dev_kfree_skb skb]))"

text \<open>
  \<^verbatim>\<open>ipc_wwan_transmit\<close>. The result is the return value, the socket buffer the local
  variable \<^verbatim>\<open>skb\<close> points to at the return (\<open>None\<close> for NULL), and the events.
  \<^verbatim>\<open>ret\<close> starts as \<^verbatim>\<open>-EINVAL\<close>, which is what every jump to \<^verbatim>\<open>exit\<close>
  returns unless the branch sets another value; \<^verbatim>\<open>dev_kfree_skb_any(NULL)\<close> does
  nothing.
\<close>

definition ipc_wwan_transmit ::
  "(int \<Rightarrow> int \<Rightarrow> sk_buff \<Rightarrow> int) \<Rightarrow> (nat \<Rightarrow> sk_buff option) \<Rightarrow> iosm_wwan \<Rightarrow> sk_buff \<Rightarrow>
   (int \<times> sk_buff option \<times> event list) option" where
  "ipc_wwan_transmit wwan_transmit dev_alloc_skb ipc_wwan skb =
     (let tag = (case vlan_tci skb of Some tci \<Rightarrow> tci | None \<Rightarrow> 0) in
      if tag = WWAN_ROOT_VLAN_TAG then Some (- EINVAL, Some skb, [Dev_kfree_skb skb])
      else
        (case ipc_wwan_pull_header skb (Some False) of
           None \<Rightarrow> None
         | Some (header_size, skb1, is_ip) \<Rightarrow>
             if header_size = 0 then Some (- EINVAL, Some skb1, [Dev_kfree_skb skb1])
             else
               (case ipc_wwan_get_vlan_devs_nr ipc_wwan tag of
                  None \<Rightarrow> None
                | Some idx \<Rightarrow>
                    if idx < 0 \<or> max_devs ipc_wwan \<le> idx
                    then Some (- EINVAL, Some skb1, [Dev_kfree_skb skb1])
                    else
                      (case vlan_devs ipc_wwan of
                         None \<Rightarrow> None
                       | Some devs \<Rightarrow>
                           if length devs \<le> nat idx then None
                           else if ch_id (devs ! nat idx) < 0
                           then Some (- EINVAL, Some skb1, [Dev_kfree_skb skb1])
                           else if 0 < uint tag \<and> uint tag < 256 then
                             (if is_ip \<noteq> Some True
                              then Some (- EXDEV, Some skb1, [Dev_kfree_skb skb1])
                              else ipc_wwan_transmit_send wwan_transmit (uint tag)
                                     (ch_id (devs ! nat idx)) header_size skb1)
                           else if 256 < uint tag \<and> uint tag < 512 then
                             (if is_ip = Some True
                              then Some (- EXDEV, Some skb1, [Dev_kfree_skb skb1])
                              else
                                (case ipc_wwan_skb_align dev_alloc_skb skb1 of
                                   None \<Rightarrow> None
                                 | Some None \<Rightarrow> Some (- EINVAL, None, [])
                                 | Some (Some skb2) \<Rightarrow>
                                     ipc_wwan_transmit_send wwan_transmit (uint tag)
                                       (ch_id (devs ! nat idx)) header_size skb2))
                           else Some (- EXDEV, Some skb1, [Dev_kfree_skb skb1])))))"

text \<open>\<^verbatim>\<open>ipc_wwan_select_queue\<close>: the tag is compared as an \<^verbatim>\<open>int\<close>.\<close>

definition ipc_wwan_select_queue :: "iosm_wwan \<Rightarrow> sk_buff \<Rightarrow> 16 word" where
  "ipc_wwan_select_queue ipc_wwan skb =
     (case vlan_tci skb of
        None \<Rightarrow> WWAN_DEFAULT_TXQ
      | Some tag \<Rightarrow>
          if IMEM_WWAN_DATA_VLAN_ID_START \<le> uint tag \<and> uint tag \<le> max_ip_devs ipc_wwan then tag
          else if (IMEM_WWAN_CTRL_VLAN_ID_START \<le> uint tag \<and> uint tag \<le> IMEM_WWAN_CTRL_VLAN_ID_END)
                  \<or> tag = WWAN_ROOT_VLAN_TAG
          then WWAN_DEFAULT_TXQ
          else 0xFFFF)"

section \<open>Receive path\<close>

text \<open>
  The kernel's \<^verbatim>\<open>eth_type_trans\<close>: it makes the current data pointer the link-layer
  header and pulls \<^verbatim>\<open>ETH_HLEN\<close> bytes when the buffer has them. The protocol it returns
  is decided by the kernel from the frame and is the parameter \<open>proto_of\<close>.
\<close>

definition eth_type_trans :: "(sk_buff \<Rightarrow> 16 word) \<Rightarrow> sk_buff \<Rightarrow> 16 word \<times> sk_buff" where
  "eth_type_trans proto_of skb =
     (let skb1 = skb\<lparr>mac_header := length (head_room skb)\<rparr>
      in (proto_of skb, (case skb_pull skb1 ETH_HLEN of None \<Rightarrow> skb1 | Some skb2 \<Rightarrow> skb2)))"

text \<open>
  The \<^verbatim>\<open>struct ethhdr\<close> that \<^verbatim>\<open>ipc_wwan_receive\<close> builds: destination and
  source are the address of the root device, the last byte of the source flipped in its
  lowest bit, followed by the protocol in network byte order.
\<close>

definition ipc_wwan_ethhdr :: "iosm_wwan \<Rightarrow> 16 word \<Rightarrow> 8 word list" where
  "ipc_wwan_ethhdr ipc_wwan h_proto =
     (let h_dest = map (dev_addr ipc_wwan) [0..<ETH_ALEN];
          h_source = h_dest[ETH_ALEN - 1 := (h_dest ! (ETH_ALEN - 1)) XOR 0x01]
      in h_dest @ h_source @ be16_bytes h_proto)"

text \<open>
  \<^verbatim>\<open>ipc_wwan_receive\<close>. The header is written over the first \<^verbatim>\<open>ETH_HLEN\<close> bytes
  at \<^verbatim>\<open>skb->data\<close> and the byte after them is inspected; both may lie in the tailroom
  of a short buffer. \<open>tag0\<close> is the value the uninitialised local \<^verbatim>\<open>tag\<close> holds
  before \<^verbatim>\<open>vlan_get_tag\<close>, whose return value the source ignores. The result of
  \<^verbatim>\<open>netif_rx_ni\<close> has no effect.
\<close>

definition ipc_wwan_receive ::
  "(sk_buff \<Rightarrow> 16 word) \<Rightarrow> 16 word \<Rightarrow> iosm_wwan \<Rightarrow> sk_buff \<Rightarrow> bool \<Rightarrow>
   (int \<times> iosm_wwan \<times> event list) option" where
  "ipc_wwan_receive proto_of tag0 ipc_wwan skb dss =
     (case data skb of
        None \<Rightarrow> Some (- 1, ipc_wwan, [Dev_kfree_skb skb])
      | Some d \<Rightarrow>
          let rest = d @ tail_room skb in
          if length rest < ETH_HLEN \<or> (\<not> dss \<and> length rest \<le> ETH_HLEN) then None
          else
            let h_proto =
                  (if \<not> dss then
                     (if (rest ! ETH_HLEN) AND 0xF0 = 0x40 then ETH_P_IP
                      else if (rest ! ETH_HLEN) AND 0xF0 = 0x60 then ETH_P_IPV6
                      else ETH_P_802_3)
                   else ETH_P_802_3);
                rest1 = ipc_wwan_ethhdr ipc_wwan h_proto @ drop ETH_HLEN rest;
                skb1 = skb\<lparr>data := Some (take (length d) rest1),
                           tail_room := drop (length d) rest1\<rparr>;
                (proto, skb2) = eth_type_trans proto_of skb1;
                skb3 = skb2\<lparr>protocol := proto\<rparr>;
                tag = (case vlan_tci skb3 of Some tci \<Rightarrow> tci | None \<Rightarrow> tag0)
            in (case ipc_wwan_update_stats ipc_wwan (ipc_wwan_vlan_to_mux_session_id tag)
                       (of_nat (skb_len skb3)) False of
                  None \<Rightarrow> None
                | Some ipc_wwan' \<Rightarrow> Some (0, ipc_wwan', [Netif_rx_ni skb3])))"

section \<open>Predicates on the session table and example states\<close>

text \<open>The live sessions are the first \<open>vlan_devs_nr\<close> elements of the array.\<close>

definition live_sessions :: "iosm_wwan \<Rightarrow> ipc_vlan_info list" where
  "live_sessions s =
     (case vlan_devs s of None \<Rightarrow> [] | Some devs \<Rightarrow> take (nat (vlan_devs_nr s)) devs)"

text \<open>The session count does not exceed the allocated array.\<close>

definition table_in_bounds :: "iosm_wwan \<Rightarrow> bool" where
  "table_in_bounds s =
     (case vlan_devs s of
        None \<Rightarrow> True
      | Some devs \<Rightarrow> vlan_devs_nr s \<le> int (length devs))"

text \<open>Some live session carries the tag.\<close>

definition has_session :: "iosm_wwan \<Rightarrow> 16 word \<Rightarrow> bool" where
  "has_session s tag = (uint tag \<in> set (map vlan_id (live_sessions s)))"

text \<open>Every live session has a valid channel id.\<close>

definition live_channels_valid :: "iosm_wwan \<Rightarrow> bool" where
  "live_channels_valid s = list_all (\<lambda>e. 0 \<le> ch_id e) (live_sessions s)"

definition stats_zero :: net_device_stats where
  "stats_zero = \<lparr>rx_packets = 0, tx_packets = 0, rx_bytes = 0, tx_bytes = 0\<rparr>"

text \<open>
  A root device for one IP session with two further slots, in which the session with
  tag 1 is bound to channel 4.
\<close>

definition wwan_one_session :: iosm_wwan where
  "wwan_one_session =
     \<lparr>vlan_devs = Some [\<lparr>vlan_id = 1, ch_id = 4, stats = stats_zero\<rparr>,
                        vlan_info_zero, vlan_info_zero],
      vlan_devs_nr = 1, max_devs = 3, max_ip_devs = 1, is_registered = True,
      dev_addr = (\<lambda>i. 2), ndev_stats = stats_zero\<rparr>"

text \<open>An IPC layer whose \<^verbatim>\<open>imem_sys_wwan_open\<close> answers with the channel id \<open>c\<close>.\<close>

definition open_const :: "int \<Rightarrow> int \<Rightarrow> int" where
  "open_const c vid = c"

text \<open>
  The root device as \<^verbatim>\<open>ipc_wwan_init\<close> leaves it for one IP session and two
  further slots: an empty table.
\<close>

definition wwan_empty :: iosm_wwan where
  "wwan_empty =
     \<lparr>vlan_devs = Some [vlan_info_zero, vlan_info_zero, vlan_info_zero],
      vlan_devs_nr = 0, max_devs = 3, max_ip_devs = 1, is_registered = True,
      dev_addr = (\<lambda>i. 2), ndev_stats = stats_zero\<rparr>"

text \<open>
  Session tag 1 on channel 4 and the control session tag 257 on channel 7, one slot free.
\<close>

definition wwan_two_sessions :: iosm_wwan where
  "wwan_two_sessions =
     \<lparr>vlan_devs = Some [\<lparr>vlan_id = 1, ch_id = 4, stats = stats_zero\<rparr>,
                        \<lparr>vlan_id = 257, ch_id = 7, stats = stats_zero\<rparr>, vlan_info_zero],
      vlan_devs_nr = 2, max_devs = 3, max_ip_devs = 1, is_registered = True,
      dev_addr = (\<lambda>i. 2), ndev_stats = stats_zero\<rparr>"

text \<open>The root device as \<^verbatim>\<open>ipc_wwan_init\<close> leaves it for 300 IP sessions.\<close>

definition wwan_many_ip :: iosm_wwan where
  "wwan_many_ip =
     \<lparr>vlan_devs = Some (replicate 308 vlan_info_zero),
      vlan_devs_nr = 0, max_devs = 308, max_ip_devs = 300, is_registered = True,
      dev_addr = (\<lambda>i. 2), ndev_stats = stats_zero\<rparr>"

text \<open>
  The protocol field \<^verbatim>\<open>ipc_wwan_pull_header\<close> reads: the encapsulated protocol of a
  VLAN header when \<^verbatim>\<open>skb->protocol\<close> is 802.1Q, the protocol of the Ethernet header
  otherwise.
\<close>

definition header_proto :: "sk_buff \<Rightarrow> 16 word option" where
  "header_proto skb =
     (if protocol skb = ETH_P_8021Q then vlan_eth_hdr_h_vlan_encapsulated_proto skb
      else eth_hdr_h_proto skb)"

text \<open>The first nibble of the bytes at \<^verbatim>\<open>skb->data\<close> is 4 or 6.\<close>

definition payload_nibble_is_ip :: "sk_buff \<Rightarrow> bool" where
  "payload_nibble_is_ip skb =
     (case skb_bytes skb of
        [] \<Rightarrow> False
      | b # bs \<Rightarrow> b AND 0xF0 = 0x40 \<or> b AND 0xF0 = 0x60)"

text \<open>
  Example frames: a socket buffer with the given protocol, tag, headroom and data, whose
  link-layer header starts the buffer; and an Ethernet header with the given protocol.
\<close>

definition frame :: "16 word \<Rightarrow> 16 word option \<Rightarrow> 8 word list \<Rightarrow> 8 word list \<Rightarrow> sk_buff" where
  "frame proto tci hdr bytes =
     \<lparr>protocol = proto, vlan_tci = tci, mac_header = 0, head_room = hdr,
      data = Some bytes, tail_room = [], head_addr = 0\<rparr>"

definition eth_header :: "16 word \<Rightarrow> 8 word list" where
  "eth_header proto = [2, 2, 2, 2, 2, 2, 2, 2, 2, 2, 2, 3] @ be16_bytes proto"

text \<open>
  An IPC layer whose \<^verbatim>\<open>imem_sys_wwan_transmit\<close> answers \<open>r\<close>, and an allocator
  that is out of memory.
\<close>

definition xmit_const :: "int \<Rightarrow> int \<Rightarrow> int \<Rightarrow> sk_buff \<Rightarrow> int" where
  "xmit_const r tag ch skb = r"

definition alloc_fails :: "nat \<Rightarrow> sk_buff option" where
  "alloc_fails n = None"

text \<open>
  A stand-in for the protocol the kernel's \<^verbatim>\<open>eth_type_trans\<close> returns: the protocol
  field of the header at \<^verbatim>\<open>skb->data\<close>, 0 when the buffer is too short.
\<close>

definition proto_of_hdr :: "sk_buff \<Rightarrow> 16 word" where
  "proto_of_hdr skb = (case be16_at (skb_bytes skb) 12 of None \<Rightarrow> 0 | Some p \<Rightarrow> p)"

section \<open>Properties of the lookup and of the re-alignment loop\<close>

lemma scan_result:
  "vlan_devs_scan devs nr tag i = Some r \<Longrightarrow>
     r = - EINVAL \<or> (int i \<le> r \<and> r < nr \<and> nat r < length devs \<and> vlan_id (devs ! nat r) = tag)"
proof (induction devs nr tag i rule: vlan_devs_scan.induct)
  case (1 devs nr tag i)
  show ?case
  proof (cases "int i < nr \<and> i < length devs \<and> vlan_id (devs ! i) \<noteq> tag")
    case True
    then have "vlan_devs_scan devs nr tag (Suc i) = Some r"
      using "1.prems" by (subst (asm) vlan_devs_scan.simps) simp
    with True "1.IH" show ?thesis by fastforce
  next
    case False
    then show ?thesis
      using "1.prems" by (subst (asm) vlan_devs_scan.simps) (auto split: if_splits)
  qed
qed

lemma scan_absent:
  "nr \<le> int (length devs) \<Longrightarrow> \<forall>j. i \<le> j \<and> int j < nr \<longrightarrow> vlan_id (devs ! j) \<noteq> tag \<Longrightarrow>
     vlan_devs_scan devs nr tag i = Some (- EINVAL)"
proof (induction devs nr tag i rule: vlan_devs_scan.induct)
  case (1 devs nr tag i)
  show ?case
  proof (cases "int i < nr")
    case True
    with "1.prems" have len: "i < length devs" and ne: "vlan_id (devs ! i) \<noteq> tag" by auto
    from "1.prems" have "\<forall>j. Suc i \<le> j \<and> int j < nr \<longrightarrow> vlan_id (devs ! j) \<noteq> tag" by auto
    with "1.IH" [OF True len ne] "1.prems"
    have "vlan_devs_scan devs nr tag (Suc i) = Some (- EINVAL)" by blast
    with True len ne show ?thesis by (subst vlan_devs_scan.simps) simp
  next
    case False
    then show ?thesis by (subst vlan_devs_scan.simps) simp
  qed
qed

lemma scan_total:
  "nr \<le> int (length devs) \<Longrightarrow> \<exists>r. vlan_devs_scan devs nr tag i = Some r"
proof (induction devs nr tag i rule: vlan_devs_scan.induct)
  case (1 devs nr tag i)
  show ?case
  proof (cases "int i < nr \<and> vlan_id (devs ! i) \<noteq> tag")
    case True
    with "1.prems" have len: "i < length devs" by auto
    from "1.IH" [of] True len "1.prems" obtain r where
      "vlan_devs_scan devs nr tag (Suc i) = Some r" by auto
    with True len show ?thesis by (subst vlan_devs_scan.simps) simp
  next
    case False
    with "1.prems" show ?thesis by (subst vlan_devs_scan.simps) auto
  qed
qed

lemma get_vlan_devs_nr_absent:
  assumes "table_in_bounds s" "\<not> has_session s tag"
  shows "ipc_wwan_get_vlan_devs_nr s tag = Some (- EINVAL)"
proof (cases "vlan_devs s")
  case None
  then show ?thesis by (simp add: ipc_wwan_get_vlan_devs_nr_def)
next
  case (Some devs)
  with assms have b: "vlan_devs_nr s \<le> int (length devs)"
    and a: "uint tag \<notin> vlan_id ` set (take (nat (vlan_devs_nr s)) devs)"
    by (simp_all add: table_in_bounds_def has_session_def live_sessions_def)
  have "\<forall>j. 0 \<le> j \<and> int j < vlan_devs_nr s \<longrightarrow> vlan_id (devs ! j) \<noteq> uint tag"
  proof (intro allI impI)
    fix j assume j: "0 \<le> j \<and> int j < vlan_devs_nr s"
    with b have "j < length (take (nat (vlan_devs_nr s)) devs)" by simp
    then have "take (nat (vlan_devs_nr s)) devs ! j \<in> set (take (nat (vlan_devs_nr s)) devs)"
      by (rule nth_mem)
    moreover from j have "take (nat (vlan_devs_nr s)) devs ! j = devs ! j" by simp
    ultimately show "vlan_id (devs ! j) \<noteq> uint tag" using a by force
  qed
  with b have "vlan_devs_scan devs (vlan_devs_nr s) (uint tag) 0 = Some (- EINVAL)"
    by (intro scan_absent) auto
  with Some show ?thesis by (simp add: ipc_wwan_get_vlan_devs_nr_def)
qed

lemma get_vlan_devs_nr_total:
  "table_in_bounds s \<Longrightarrow> \<exists>r. ipc_wwan_get_vlan_devs_nr s tag = Some r"
  by (cases "vlan_devs s")
     (auto simp: ipc_wwan_get_vlan_devs_nr_def table_in_bounds_def intro: scan_total)

lemma realign_nth:
  "vlan_devs_realign devs nr i = Some devs' \<Longrightarrow>
     length devs' = length devs \<and>
     (\<forall>j < length devs. devs' ! j = (if i \<le> j \<and> int j < nr then devs ! Suc j else devs ! j))"
proof (induction devs nr i arbitrary: devs' rule: vlan_devs_realign.induct)
  case (1 devs nr i)
  show ?case
  proof (cases "int i < nr")
    case True
    then have len: "Suc i < length devs"
      using "1.prems" by (subst (asm) vlan_devs_realign.simps) (simp split: if_splits)
    then have rec: "vlan_devs_realign (devs[i := devs ! Suc i]) nr (Suc i) = Some devs'"
      using "1.prems" True by (subst (asm) vlan_devs_realign.simps) simp
    from "1.IH" [OF True len rec] len True show ?thesis
      by (auto simp: nth_list_update)
  next
    case False
    then have "devs' = devs"
      using "1.prems" by (subst (asm) vlan_devs_realign.simps) simp
    with False show ?thesis by auto
  qed
qed

lemma realign_total:
  "nr < int (length devs) \<Longrightarrow> \<exists>devs'. vlan_devs_realign devs nr i = Some devs'"
proof (induction devs nr i rule: vlan_devs_realign.induct)
  case (1 devs nr i)
  show ?case
  proof (cases "int i < nr")
    case True
    with "1.prems" have len: "Suc i < length devs" by simp
    from "1.IH" [OF True len] "1.prems" obtain devs' where
      "vlan_devs_realign (devs[i := devs ! Suc i]) nr (Suc i) = Some devs'" by auto
    then show ?thesis using True len by (subst vlan_devs_realign.simps) simp
  next
    case False
    then show ?thesis by (subst vlan_devs_realign.simps) simp
  qed
qed

lemma realign_Some_bound:
  "vlan_devs_realign devs nr i = Some devs' \<Longrightarrow> int i < nr \<Longrightarrow> nr < int (length devs)"
proof (induction devs nr i arbitrary: devs' rule: vlan_devs_realign.induct)
  case (1 devs nr i)
  from "1.prems" have len: "Suc i < length devs"
    by (subst (asm) vlan_devs_realign.simps) (simp split: if_splits)
  with "1.prems" have rec: "vlan_devs_realign (devs[i := devs ! Suc i]) nr (Suc i) = Some devs'"
    by (subst (asm) vlan_devs_realign.simps) simp
  show ?case
  proof (cases "int (Suc i) < nr")
    case True
    from "1.IH" [OF "1.prems"(2) len rec True] show ?thesis by simp
  next
    case False
    with "1.prems"(2) len show ?thesis by linarith
  qed
qed

lemma remove_vlan_compacts:
  assumes devs: "vlan_devs s = Some devs"
    and room: "vlan_devs_nr s < int (length devs)"
    and look: "ipc_wwan_get_vlan_devs_nr s vid = Some (int n)"
    and ch: "0 \<le> ch_id (devs ! n)"
  shows "\<exists>s'. ipc_wwan_remove_vlan s vid =
                 Some (0, s', [Imem_sys_wwan_close (uint vid) (ch_id (devs ! n))])
              \<and> vlan_devs_nr s' = vlan_devs_nr s - 1
              \<and> live_sessions s' = take n (live_sessions s) @ drop (Suc n) (live_sessions s)
              \<and> vlan_devs s' \<noteq> None \<and> table_in_bounds s'"
proof -
  let ?nr = "vlan_devs_nr s"
  let ?devs1 = "devs[n := (devs ! n)\<lparr>ch_id := - 1\<rparr>]"
  from look devs have "vlan_devs_scan devs ?nr (uint vid) 0 = Some (int n)"
    by (simp add: ipc_wwan_get_vlan_devs_nr_def)
  from scan_result [OF this] have n: "int n < ?nr" "n < length devs"
    by (auto simp: EINVAL_def)
  from room obtain devs2 where re: "vlan_devs_realign ?devs1 ?nr n = Some devs2"
    using realign_total [of ?nr ?devs1 n] by auto
  from realign_nth [OF re] have len2: "length devs2 = length devs"
    and nth2: "\<And>j. j < length devs \<Longrightarrow>
      devs2 ! j = (if n \<le> j \<and> int j < ?nr then ?devs1 ! Suc j else ?devs1 ! j)"
    by simp_all
  let ?s' = "s\<lparr>vlan_devs := Some devs2, vlan_devs_nr := ?nr - 1\<rparr>"
  have run: "ipc_wwan_remove_vlan s vid =
               Some (0, ?s', [Imem_sys_wwan_close (uint vid) (ch_id (devs ! n))])"
    using look devs n ch re by (simp add: ipc_wwan_remove_vlan_def Let_def)
  have "take (nat (?nr - 1)) devs2 = take n (take (nat ?nr) devs) @ drop (Suc n) (take (nat ?nr) devs)"
  proof (rule nth_equalityI)
    show "length (take (nat (?nr - 1)) devs2) =
          length (take n (take (nat ?nr) devs) @ drop (Suc n) (take (nat ?nr) devs))"
      using n room len2 by (simp add: min_def) linarith
  next
    fix i assume "i < length (take (nat (?nr - 1)) devs2)"
    with len2 room have i: "i < nat (?nr - 1)" "i < length devs" by simp_all
    then have i': "int i < ?nr - 1" by linarith
    show "take (nat (?nr - 1)) devs2 ! i =
          (take n (take (nat ?nr) devs) @ drop (Suc n) (take (nat ?nr) devs)) ! i"
    proof (cases "i < n")
      case True
      with i n room show ?thesis using nth2 [of i]
        by (simp add: nth_append min_def)
    next
      case False
      then have ni: "n \<le> i" by simp
      from i' have si: "Suc i < nat ?nr" by linarith
      have "drop (Suc n) (take (nat ?nr) devs) ! (i - n) = take (nat ?nr) devs ! (Suc n + (i - n))"
        using n room by (intro nth_drop) simp
      also have "\<dots> = devs ! Suc i" using ni si by simp
      finally have d: "drop (Suc n) (take (nat ?nr) devs) ! (i - n) = devs ! Suc i" .
      have "devs2 ! i = devs ! Suc i"
        using nth2 [of i] i i' ni by (simp add: nth_list_update)
      with d i ni n room show ?thesis
        by (simp add: nth_append min_def)
    qed
  qed
  then have "live_sessions ?s' = take n (live_sessions s) @ drop (Suc n) (live_sessions s)"
    using devs by (simp add: live_sessions_def)
  moreover have "table_in_bounds ?s'"
    using room len2 by (simp add: table_in_bounds_def)
  ultimately show ?thesis using run by (intro exI [of _ ?s']) simp
qed

lemma scan_take:
  "nr \<le> int (length devs) \<Longrightarrow>
     vlan_devs_scan devs nr tag i = vlan_devs_scan (take (nat nr) devs) nr tag i"
proof (induction devs nr tag i rule: vlan_devs_scan.induct)
  case (1 devs nr tag i)
  show ?case
  proof (cases "int i < nr")
    case True
    with "1.prems" have len: "i < length devs" "i < length (take (nat nr) devs)"
      and eq: "take (nat nr) devs ! i = devs ! i" by auto
    show ?thesis
    proof (cases "vlan_id (devs ! i) = tag")
      case True
      with \<open>int i < nr\<close> len eq show ?thesis
        by (subst vlan_devs_scan.simps, subst (2) vlan_devs_scan.simps) simp
    next
      case False
      from "1.IH" [OF \<open>int i < nr\<close> len(1) False "1.prems"] \<open>int i < nr\<close> len eq False
      show ?thesis
        by (subst vlan_devs_scan.simps, subst (2) vlan_devs_scan.simps) simp
    qed
  next
    case False
    then show ?thesis
      by (subst vlan_devs_scan.simps, subst (2) vlan_devs_scan.simps) simp
  qed
qed

lemma get_vlan_devs_nr_live:
  assumes "vlan_devs s \<noteq> None" "table_in_bounds s"
  shows "ipc_wwan_get_vlan_devs_nr s tag =
           vlan_devs_scan (live_sessions s) (vlan_devs_nr s) (uint tag) 0"
proof -
  from assms(1) obtain devs where d: "vlan_devs s = Some devs" by auto
  with assms(2) have "vlan_devs_nr s \<le> int (length devs)" by (simp add: table_in_bounds_def)
  from scan_take [OF this] d show ?thesis
    by (simp add: ipc_wwan_get_vlan_devs_nr_def live_sessions_def)
qed

lemma add_vlan_slot:
  assumes "vlan_devs s = Some devs"
    and "0 \<le> vlan_devs_nr s" and "vlan_devs_nr s < int (length devs)"
    and "0 < uint vid" and "uint vid < 512"
  shows "ipc_wwan_add_vlan wwan_open s vid =
           (if 0 \<le> wwan_open (uint vid)
            then Some (0,
                       s\<lparr>vlan_devs := Some (devs[nat (vlan_devs_nr s) :=
                                               (devs ! nat (vlan_devs_nr s))
                                                 \<lparr>ch_id := wwan_open (uint vid), vlan_id := uint vid\<rparr>]),
                         vlan_devs_nr := vlan_devs_nr s + 1\<rparr>,
                       [Imem_sys_wwan_open (uint vid)])
            else Some (- ENODEV,
                       s\<lparr>vlan_devs := Some (devs[nat (vlan_devs_nr s) :=
                                               (devs ! nat (vlan_devs_nr s))
                                                 \<lparr>ch_id := wwan_open (uint vid)\<rparr>])\<rparr>,
                       [Imem_sys_wwan_open (uint vid)]))"
proof -
  from assms(4) have "vid \<noteq> 0" by auto
  with assms show ?thesis
    by (simp add: ipc_wwan_add_vlan_def Let_def WWAN_ROOT_VLAN_TAG_def)
qed

text \<open>
  The session count stays within the allocated array: \<^verbatim>\<open>ipc_wwan_init\<close> establishes
  this and every operation that returns keeps it.
\<close>

lemma init_in_bounds:
  "ipc_wwan_init IPC_MEM_MAX_CHANNELS netdev_ok kcalloc_ok register_ok addr max_sessions = Some s
     \<Longrightarrow> table_in_bounds s \<and> live_sessions s = []"
  by (auto simp: ipc_wwan_init_def table_in_bounds_def live_sessions_def split: if_splits)

lemma add_vlan_in_bounds:
  "table_in_bounds s \<Longrightarrow> ipc_wwan_add_vlan wwan_open s vid = Some (r, s', ev)
     \<Longrightarrow> table_in_bounds s'"
  by (cases "vlan_devs s")
     (auto simp: ipc_wwan_add_vlan_def table_in_bounds_def Let_def split: if_splits)

lemma remove_vlan_in_bounds:
  assumes "table_in_bounds s" and "ipc_wwan_remove_vlan s vid = Some (r, s', ev)"
  shows "table_in_bounds s'"
proof (cases "s' = s")
  case True
  with assms show ?thesis by simp
next
  case False
  from assms(2) False obtain ch_nr devs devs2 where
    devs: "vlan_devs s = Some devs"
    and re: "vlan_devs_realign (devs[nat ch_nr := (devs ! nat ch_nr)\<lparr>ch_id := - 1\<rparr>])
               (vlan_devs_nr s) (nat ch_nr) = Some devs2"
    and s': "s' = s\<lparr>vlan_devs := Some devs2, vlan_devs_nr := vlan_devs_nr s - 1\<rparr>"
    by (auto simp: ipc_wwan_remove_vlan_def Let_def split: option.splits if_splits)
  from realign_nth [OF re] have "length devs2 = length devs" by simp
  with assms(1) devs s' show ?thesis by (simp add: table_in_bounds_def)
qed

lemma update_stats_in_bounds:
  "table_in_bounds s \<Longrightarrow> ipc_wwan_update_stats s sid len tx = Some s' \<Longrightarrow> table_in_bounds s'"
  by (cases "vlan_devs s")
     (auto simp: ipc_wwan_update_stats_def table_in_bounds_def Let_def
        split: option.splits if_splits)

section \<open>Adding a session: capacity and rejected tags\<close>

lemma wwan_empty_init:
  "ipc_wwan_init 2 True True True (\<lambda>i. 2) 1 = Some wwan_empty"
  by (simp add: ipc_wwan_init_def wwan_empty_def stats_zero_def numeral_3_eq_3)

lemma wwan_one_session_reachable:
  "ipc_wwan_add_vlan (open_const 4) wwan_empty 1
     = Some (0, wwan_one_session, [Imem_sys_wwan_open 1])"
  by (simp add: ipc_wwan_add_vlan_def wwan_empty_def wwan_one_session_def Let_def
      open_const_def WWAN_ROOT_VLAN_TAG_def vlan_info_zero_def stats_zero_def)

text \<open>
  C1 as stated fails. The table of \<open>wwan_one_session\<close> holds as many live sessions as
  the root device has IP sessions (\<open>max_ip_devs\<close>, the \<^verbatim>\<open>max_sessions\<close> given to
  \<^verbatim>\<open>ipc_wwan_init\<close>). Adding tag 2 does not fail: the IPC layer is asked for a
  channel, the entry is written into slot 1 and the count becomes 2.
\<close>

theorem add_vlan_capacity_counterexample:
  "vlan_devs_nr wwan_one_session = max_ip_devs wwan_one_session
   \<and> ipc_wwan_add_vlan (open_const 5) wwan_one_session 2
       = Some (0,
               wwan_one_session
                 \<lparr>vlan_devs := Some [\<lparr>vlan_id = 1, ch_id = 4, stats = stats_zero\<rparr>,
                                     \<lparr>vlan_id = 2, ch_id = 5, stats = stats_zero\<rparr>, vlan_info_zero],
                  vlan_devs_nr := 2\<rparr>,
               [Imem_sys_wwan_open 2])"
  by (simp add: ipc_wwan_add_vlan_def wwan_one_session_def Let_def open_const_def
        WWAN_ROOT_VLAN_TAG_def vlan_info_zero_def stats_zero_def)

text \<open>
  Once the count has reached the length of the array, the write of the channel id goes to
  \<open>vlan_devs[vlan_devs_nr]\<close> outside the array: no test precedes it.
\<close>

lemma add_vlan_full_array:
  assumes "vlan_devs s = Some devs" and "vlan_devs_nr s = int (length devs)"
    and "0 < uint vid" and "uint vid < 512"
  shows "ipc_wwan_add_vlan wwan_open s vid = None"
proof -
  from assms(3) have "vid \<noteq> 0" by auto
  with assms show ?thesis
    by (simp add: ipc_wwan_add_vlan_def Let_def WWAN_ROOT_VLAN_TAG_def)
qed

text \<open>
  C1, as the code has it: \<^verbatim>\<open>ipc_wwan_add_vlan\<close> has no capacity test. Whenever slot
  \<open>vlan_devs_nr\<close> lies inside the array, an add of a tag in 1..511 asks the IPC layer
  for a channel once; a channel id \<open>\<ge> 0\<close> is stored with the tag in slot
  \<open>vlan_devs_nr\<close>, the count is incremented and 0 is returned; a negative id is left in
  that free slot, the count stays and \<^verbatim>\<open>-ENODEV\<close> is returned.
\<close>

theorem add_vlan_free_slot:
  assumes "vlan_devs s = Some devs"
    and "0 \<le> vlan_devs_nr s" and "vlan_devs_nr s < int (length devs)"
    and "0 < uint vid" and "uint vid < 512"
  shows "ipc_wwan_add_vlan wwan_open s vid =
           (if 0 \<le> wwan_open (uint vid)
            then Some (0,
                       s\<lparr>vlan_devs := Some (devs[nat (vlan_devs_nr s) :=
                                               (devs ! nat (vlan_devs_nr s))
                                                 \<lparr>ch_id := wwan_open (uint vid), vlan_id := uint vid\<rparr>]),
                         vlan_devs_nr := vlan_devs_nr s + 1\<rparr>,
                       [Imem_sys_wwan_open (uint vid)])
            else Some (- ENODEV,
                       s\<lparr>vlan_devs := Some (devs[nat (vlan_devs_nr s) :=
                                               (devs ! nat (vlan_devs_nr s))
                                                 \<lparr>ch_id := wwan_open (uint vid)\<rparr>])\<rparr>,
                       [Imem_sys_wwan_open (uint vid)]))"
  using assms by (rule add_vlan_slot)

theorem add_vlan_free_slot_witness:
  "vlan_devs wwan_one_session
     = Some [\<lparr>vlan_id = 1, ch_id = 4, stats = stats_zero\<rparr>, vlan_info_zero, vlan_info_zero]
   \<and> 0 \<le> vlan_devs_nr wwan_one_session \<and> vlan_devs_nr wwan_one_session < 3
   \<and> 0 < uint (257 :: 16 word) \<and> uint (257 :: 16 word) < 512
   \<and> ipc_wwan_add_vlan (open_const 7) wwan_one_session 257
       = Some (0,
               wwan_one_session
                 \<lparr>vlan_devs := Some [\<lparr>vlan_id = 1, ch_id = 4, stats = stats_zero\<rparr>,
                                     \<lparr>vlan_id = 257, ch_id = 7, stats = stats_zero\<rparr>, vlan_info_zero],
                  vlan_devs_nr := 2\<rparr>,
               [Imem_sys_wwan_open 257])
   \<and> ipc_wwan_add_vlan (open_const (- 1)) wwan_one_session 257
       = Some (- ENODEV,
               wwan_one_session
                 \<lparr>vlan_devs := Some [\<lparr>vlan_id = 1, ch_id = 4, stats = stats_zero\<rparr>,
                                     \<lparr>vlan_id = 0, ch_id = - 1, stats = stats_zero\<rparr>, vlan_info_zero]\<rparr>,
               [Imem_sys_wwan_open 257])"
proof -
  let ?d = "[\<lparr>vlan_id = 1, ch_id = 4, stats = stats_zero\<rparr>, vlan_info_zero, vlan_info_zero]"
  have d: "vlan_devs wwan_one_session = Some ?d" by (simp add: wwan_one_session_def)
  have n: "0 \<le> vlan_devs_nr wwan_one_session" "vlan_devs_nr wwan_one_session < int (length ?d)"
    by (simp_all add: wwan_one_session_def)
  have v: "0 < uint (257 :: 16 word)" "uint (257 :: 16 word) < 512" by simp_all
  from add_vlan_free_slot [OF d n v, of "open_const 7"]
       add_vlan_free_slot [OF d n v, of "open_const (- 1)"] d n v
  show ?thesis
    by (simp add: open_const_def wwan_one_session_def vlan_info_zero_def stats_zero_def)
qed

text \<open>
  C2 as stated fails for the root tag: on an allocated table
  \<^verbatim>\<open>ipc_wwan_add_vlan\<close> returns 0 for the root tag.
\<close>

theorem add_vlan_root_counterexample:
  "ipc_wwan_add_vlan (open_const 5) wwan_one_session 0 = Some (0, wwan_one_session, [])"
  by (simp add: ipc_wwan_add_vlan_def WWAN_ROOT_VLAN_TAG_def wwan_one_session_def)

text \<open>
  C2, as the code has it: an add of a tag \<open>\<ge> 512\<close> returns \<^verbatim>\<open>-EINVAL\<close>, an add of
  tag 0 returns 0 (\<^verbatim>\<open>-EINVAL\<close> when the table was never allocated); in both cases the
  state is unchanged and the IPC layer is not called.
\<close>

theorem add_vlan_root_or_out_of_range:
  "(512 \<le> uint vid \<longrightarrow> ipc_wwan_add_vlan wwan_open s vid = Some (- EINVAL, s, []))
   \<and> (vid = 0 \<longrightarrow>
        ipc_wwan_add_vlan wwan_open s vid =
          Some (if vlan_devs s = None then - EINVAL else 0, s, []))"
  by (simp add: ipc_wwan_add_vlan_def WWAN_ROOT_VLAN_TAG_def)

theorem add_vlan_root_or_out_of_range_witness:
  "512 \<le> uint (600 :: 16 word)
   \<and> ipc_wwan_add_vlan (open_const 5) wwan_one_session 600
       = Some (- EINVAL, wwan_one_session, [])
   \<and> ipc_wwan_add_vlan (open_const 5) wwan_one_session 0
       = Some (if vlan_devs wwan_one_session = None then - EINVAL else 0, wwan_one_session, [])"
proof -
  have h: "512 \<le> uint (600 :: 16 word)" by simp
  from add_vlan_root_or_out_of_range [of 600 "open_const 5" wwan_one_session,
          THEN conjunct1, rule_format, OF h]
       add_vlan_root_or_out_of_range [of 0 "open_const 5" wwan_one_session,
          THEN conjunct2, rule_format, OF refl] h
  show ?thesis by simp
qed

section \<open>Two adds and a remove\<close>

lemma add_add_remove_scenario:
  assumes s0: "vlan_devs s0 = Some devs0" "vlan_devs_nr s0 = 0" "2 < length devs0"
    and tags: "t1 \<noteq> t2" "0 < uint t1" "uint t1 < 512" "0 < uint t2" "uint t2 < 512"
    and opens: "0 \<le> open1 (uint t1)" "0 \<le> open2 (uint t2)"
  shows "\<exists>s1 s2 s3.
      ipc_wwan_add_vlan open1 s0 t1 = Some (0, s1, [Imem_sys_wwan_open (uint t1)])
    \<and> ipc_wwan_add_vlan open2 s1 t2 = Some (0, s2, [Imem_sys_wwan_open (uint t2)])
    \<and> ipc_wwan_remove_vlan s2 t1
        = Some (0, s3, [Imem_sys_wwan_close (uint t1) (open1 (uint t1))])
    \<and> vlan_devs_nr s2 = 2
    \<and> map (\<lambda>e. (vlan_id e, ch_id e)) (live_sessions s2)
        = [(uint t1, open1 (uint t1)), (uint t2, open2 (uint t2))]
    \<and> vlan_devs_nr s3 = 1
    \<and> map (\<lambda>e. (vlan_id e, ch_id e)) (live_sessions s3) = [(uint t2, open2 (uint t2))]
    \<and> ipc_wwan_get_vlan_devs_nr s3 t2 = Some 0
    \<and> ipc_wwan_get_vlan_devs_nr s3 t1 = Some (- EINVAL)"
proof -
  let ?e1 = "(devs0 ! 0)\<lparr>ch_id := open1 (uint t1), vlan_id := uint t1\<rparr>"
  let ?e2 = "(devs0 ! 1)\<lparr>ch_id := open2 (uint t2), vlan_id := uint t2\<rparr>"
  let ?devs1 = "devs0[0 := ?e1]"
  let ?devs2 = "?devs1[1 := ?e2]"
  let ?s1 = "s0\<lparr>vlan_devs := Some ?devs1, vlan_devs_nr := 1\<rparr>"
  let ?s2 = "s0\<lparr>vlan_devs := Some ?devs2, vlan_devs_nr := 2\<rparr>"
  from s0(3) have len: "0 < length devs0" "1 < length devs0" "Suc (Suc 0) < length devs0"
    by linarith+
  have a1: "ipc_wwan_add_vlan open1 s0 t1 = Some (0, ?s1, [Imem_sys_wwan_open (uint t1)])"
    using add_vlan_slot [of s0 devs0 t1 open1] s0 tags opens len by simp
  have a2: "ipc_wwan_add_vlan open2 ?s1 t2 = Some (0, ?s2, [Imem_sys_wwan_open (uint t2)])"
    using add_vlan_slot [of ?s1 ?devs1 t2 open2] s0 tags opens len by simp
  have live2: "live_sessions ?s2 = [?e1, ?e2]"
  proof -
    have "take 2 ?devs2 = [?devs2 ! 0, ?devs2 ! 1]"
      using len by (simp add: numeral_2_eq_2 take_Suc_conv_app_nth)
    with len show ?thesis by (simp add: live_sessions_def)
  qed
  have look: "ipc_wwan_get_vlan_devs_nr ?s2 t1 = Some (int 0)"
    using len by (simp add: ipc_wwan_get_vlan_devs_nr_def vlan_devs_scan.simps [of _ _ _ 0])
  have room: "vlan_devs_nr ?s2 < int (length ?devs2)" using s0 by simp
  have ch: "0 \<le> ch_id (?devs2 ! 0)" using len opens by simp
  from remove_vlan_compacts [of ?s2 ?devs2 t1 0, OF _ room look ch]
  obtain s3 where
    r0: "ipc_wwan_remove_vlan ?s2 t1 = Some (0, s3, [Imem_sys_wwan_close (uint t1) (ch_id (?devs2 ! 0))])"
    and nr3': "vlan_devs_nr s3 = vlan_devs_nr ?s2 - 1"
    and live3': "live_sessions s3 = take 0 (live_sessions ?s2) @ drop (Suc 0) (live_sessions ?s2)"
    and ok3: "vlan_devs s3 \<noteq> None" "table_in_bounds s3"
    by auto
  from r0 len have r: "ipc_wwan_remove_vlan ?s2 t1
      = Some (0, s3, [Imem_sys_wwan_close (uint t1) (open1 (uint t1))])" by simp
  from nr3' have nr3: "vlan_devs_nr s3 = 1" by simp
  from live3' have live3: "live_sessions s3 = [?e2]" by (simp only: live2) simp
  from tags have ne: "uint t2 \<noteq> uint t1" by (simp add: word_uint_eq_iff)
  have l2: "ipc_wwan_get_vlan_devs_nr s3 t2 = Some 0"
    using get_vlan_devs_nr_live [OF ok3] nr3 live3
    by (simp add: vlan_devs_scan.simps [of _ _ _ 0])
  have l1: "ipc_wwan_get_vlan_devs_nr s3 t1 = Some (- EINVAL)"
    using get_vlan_devs_nr_live [OF ok3] nr3 live3 ne
    by (simp add: vlan_devs_scan.simps [of _ _ _ 0] vlan_devs_scan.simps [of _ _ _ "Suc 0"])
  from a1 a2 r nr3 live2 live3 l1 l2 show ?thesis
    by (intro exI [of _ ?s1] exI [of _ ?s2] exI [of _ s3]) simp
qed

text \<open>
  C7: from an empty table with room for two sessions and one slot more, adding \<open>t1\<close> and
  \<open>t2\<close> (distinct, in 1..511, both opened by the IPC layer) and removing \<open>t1\<close> leaves
  exactly one live session, \<open>t2\<close>, on the channel id that its add was given; the lookup
  finds \<open>t2\<close> at index 0 and no longer finds \<open>t1\<close>. In general a successful remove
  of the session at index \<open>n\<close> closes its channel, decrements the count and leaves the
  live sessions before \<open>n\<close> followed by the live sessions after \<open>n\<close>, in their order.
\<close>

theorem add_add_remove_compacts:
  "(vlan_devs s0 = Some devs0 \<and> vlan_devs_nr s0 = 0 \<and> 2 < length devs0
      \<and> t1 \<noteq> t2 \<and> 0 < uint t1 \<and> uint t1 < 512 \<and> 0 < uint t2 \<and> uint t2 < 512
      \<and> 0 \<le> open1 (uint t1) \<and> 0 \<le> open2 (uint t2) \<longrightarrow>
    (\<exists>s1 s2 s3.
        ipc_wwan_add_vlan open1 s0 t1 = Some (0, s1, [Imem_sys_wwan_open (uint t1)])
      \<and> ipc_wwan_add_vlan open2 s1 t2 = Some (0, s2, [Imem_sys_wwan_open (uint t2)])
      \<and> ipc_wwan_remove_vlan s2 t1
          = Some (0, s3, [Imem_sys_wwan_close (uint t1) (open1 (uint t1))])
      \<and> vlan_devs_nr s2 = 2
      \<and> map (\<lambda>e. (vlan_id e, ch_id e)) (live_sessions s2)
          = [(uint t1, open1 (uint t1)), (uint t2, open2 (uint t2))]
      \<and> vlan_devs_nr s3 = 1
      \<and> map (\<lambda>e. (vlan_id e, ch_id e)) (live_sessions s3) = [(uint t2, open2 (uint t2))]
      \<and> ipc_wwan_get_vlan_devs_nr s3 t2 = Some 0
      \<and> ipc_wwan_get_vlan_devs_nr s3 t1 = Some (- EINVAL)))
   \<and> (vlan_devs s = Some devs \<and> vlan_devs_nr s < int (length devs)
        \<and> ipc_wwan_get_vlan_devs_nr s vid = Some (int n) \<and> 0 \<le> ch_id (devs ! n) \<longrightarrow>
      (\<exists>s'. ipc_wwan_remove_vlan s vid
               = Some (0, s', [Imem_sys_wwan_close (uint vid) (ch_id (devs ! n))])
            \<and> vlan_devs_nr s' = vlan_devs_nr s - 1
            \<and> live_sessions s' = take n (live_sessions s) @ drop (Suc n) (live_sessions s)))"
proof (intro conjI impI)
  assume "vlan_devs s0 = Some devs0 \<and> vlan_devs_nr s0 = 0 \<and> 2 < length devs0
      \<and> t1 \<noteq> t2 \<and> 0 < uint t1 \<and> uint t1 < 512 \<and> 0 < uint t2 \<and> uint t2 < 512
      \<and> 0 \<le> open1 (uint t1) \<and> 0 \<le> open2 (uint t2)"
  then show "\<exists>s1 s2 s3.
        ipc_wwan_add_vlan open1 s0 t1 = Some (0, s1, [Imem_sys_wwan_open (uint t1)])
      \<and> ipc_wwan_add_vlan open2 s1 t2 = Some (0, s2, [Imem_sys_wwan_open (uint t2)])
      \<and> ipc_wwan_remove_vlan s2 t1
          = Some (0, s3, [Imem_sys_wwan_close (uint t1) (open1 (uint t1))])
      \<and> vlan_devs_nr s2 = 2
      \<and> map (\<lambda>e. (vlan_id e, ch_id e)) (live_sessions s2)
          = [(uint t1, open1 (uint t1)), (uint t2, open2 (uint t2))]
      \<and> vlan_devs_nr s3 = 1
      \<and> map (\<lambda>e. (vlan_id e, ch_id e)) (live_sessions s3) = [(uint t2, open2 (uint t2))]
      \<and> ipc_wwan_get_vlan_devs_nr s3 t2 = Some 0
      \<and> ipc_wwan_get_vlan_devs_nr s3 t1 = Some (- EINVAL)"
    using add_add_remove_scenario [of s0 devs0 t1 t2 open1 open2] by blast
next
  assume "vlan_devs s = Some devs \<and> vlan_devs_nr s < int (length devs)
        \<and> ipc_wwan_get_vlan_devs_nr s vid = Some (int n) \<and> 0 \<le> ch_id (devs ! n)"
  then show "\<exists>s'. ipc_wwan_remove_vlan s vid
               = Some (0, s', [Imem_sys_wwan_close (uint vid) (ch_id (devs ! n))])
            \<and> vlan_devs_nr s' = vlan_devs_nr s - 1
            \<and> live_sessions s' = take n (live_sessions s) @ drop (Suc n) (live_sessions s)"
    using remove_vlan_compacts [of s devs vid n] by blast
qed

theorem add_add_remove_compacts_witness:
  "(vlan_devs wwan_empty = Some [vlan_info_zero, vlan_info_zero, vlan_info_zero]
      \<and> vlan_devs_nr wwan_empty = 0
      \<and> 2 < length [vlan_info_zero, vlan_info_zero, vlan_info_zero]
      \<and> (1 :: 16 word) \<noteq> 257 \<and> 0 < uint (1 :: 16 word) \<and> uint (1 :: 16 word) < 512
      \<and> 0 < uint (257 :: 16 word) \<and> uint (257 :: 16 word) < 512
      \<and> 0 \<le> open_const 4 (uint (1 :: 16 word)) \<and> 0 \<le> open_const 5 (uint (257 :: 16 word)))
   \<and> (\<exists>s1 s2 s3.
        ipc_wwan_add_vlan (open_const 4) wwan_empty 1 = Some (0, s1, [Imem_sys_wwan_open 1])
      \<and> ipc_wwan_add_vlan (open_const 5) s1 257 = Some (0, s2, [Imem_sys_wwan_open 257])
      \<and> ipc_wwan_remove_vlan s2 1 = Some (0, s3, [Imem_sys_wwan_close 1 4])
      \<and> vlan_devs_nr s2 = 2
      \<and> map (\<lambda>e. (vlan_id e, ch_id e)) (live_sessions s2) = [(1, 4), (257, 5)]
      \<and> vlan_devs_nr s3 = 1
      \<and> map (\<lambda>e. (vlan_id e, ch_id e)) (live_sessions s3) = [(257, 5)]
      \<and> ipc_wwan_get_vlan_devs_nr s3 257 = Some 0
      \<and> ipc_wwan_get_vlan_devs_nr s3 1 = Some (- EINVAL))
   \<and> (vlan_devs wwan_one_session
         = Some [\<lparr>vlan_id = 1, ch_id = 4, stats = stats_zero\<rparr>, vlan_info_zero, vlan_info_zero]
      \<and> vlan_devs_nr wwan_one_session
          < int (length [\<lparr>vlan_id = 1, ch_id = 4, stats = stats_zero\<rparr>,
                         vlan_info_zero, vlan_info_zero])
      \<and> ipc_wwan_get_vlan_devs_nr wwan_one_session 1 = Some (int 0)
      \<and> 0 \<le> ch_id ([\<lparr>vlan_id = 1, ch_id = 4, stats = stats_zero\<rparr>,
                       vlan_info_zero, vlan_info_zero] ! 0))
   \<and> (\<exists>s'. ipc_wwan_remove_vlan wwan_one_session 1 = Some (0, s', [Imem_sys_wwan_close 1 4])
            \<and> vlan_devs_nr s' = 0 \<and> live_sessions s' = [])"
proof -
  let ?z3 = "[vlan_info_zero, vlan_info_zero, vlan_info_zero]"
  let ?d1 = "[\<lparr>vlan_id = 1, ch_id = 4, stats = stats_zero\<rparr>, vlan_info_zero, vlan_info_zero]"
  have h1: "vlan_devs wwan_empty = Some ?z3 \<and> vlan_devs_nr wwan_empty = 0 \<and> 2 < length ?z3
      \<and> (1 :: 16 word) \<noteq> 257 \<and> 0 < uint (1 :: 16 word) \<and> uint (1 :: 16 word) < 512
      \<and> 0 < uint (257 :: 16 word) \<and> uint (257 :: 16 word) < 512
      \<and> 0 \<le> open_const 4 (uint (1 :: 16 word)) \<and> 0 \<le> open_const 5 (uint (257 :: 16 word))"
    by (simp add: wwan_empty_def open_const_def)
  have h2: "vlan_devs wwan_one_session = Some ?d1
      \<and> vlan_devs_nr wwan_one_session < int (length ?d1)
      \<and> ipc_wwan_get_vlan_devs_nr wwan_one_session 1 = Some (int 0)
      \<and> 0 \<le> ch_id (?d1 ! 0)"
    by (simp add: wwan_one_session_def ipc_wwan_get_vlan_devs_nr_def
        vlan_devs_scan.simps [of _ _ _ 0])
  from add_add_remove_compacts [of wwan_empty ?z3 1 257 "open_const 4" "open_const 5",
         THEN conjunct1, rule_format, OF h1]
  have c1: "\<exists>s1 s2 s3.
        ipc_wwan_add_vlan (open_const 4) wwan_empty 1 = Some (0, s1, [Imem_sys_wwan_open 1])
      \<and> ipc_wwan_add_vlan (open_const 5) s1 257 = Some (0, s2, [Imem_sys_wwan_open 257])
      \<and> ipc_wwan_remove_vlan s2 1 = Some (0, s3, [Imem_sys_wwan_close 1 4])
      \<and> vlan_devs_nr s2 = 2
      \<and> map (\<lambda>e. (vlan_id e, ch_id e)) (live_sessions s2) = [(1, 4), (257, 5)]
      \<and> vlan_devs_nr s3 = 1
      \<and> map (\<lambda>e. (vlan_id e, ch_id e)) (live_sessions s3) = [(257, 5)]
      \<and> ipc_wwan_get_vlan_devs_nr s3 257 = Some 0
      \<and> ipc_wwan_get_vlan_devs_nr s3 1 = Some (- EINVAL)"
    by (simp add: open_const_def)
  from add_add_remove_compacts [of _ _ _ _ _ _ wwan_one_session ?d1 1 0,
         THEN conjunct2, rule_format, OF h2]
  have c2: "\<exists>s'. ipc_wwan_remove_vlan wwan_one_session 1 = Some (0, s', [Imem_sys_wwan_close 1 4])
            \<and> vlan_devs_nr s' = 0 \<and> live_sessions s' = []"
    by (simp add: wwan_one_session_def live_sessions_def)
  show ?thesis
    by (rule conjI [OF h1 conjI [OF c1 conjI [OF h2 c2]]])
qed

section \<open>Live sessions keep a valid channel\<close>

lemma add_vlan_keeps_valid:
  assumes "live_channels_valid s"
    and "ipc_wwan_add_vlan wwan_open s vid = Some (r, s', ev)"
  shows "live_channels_valid s'"
proof (cases "vlan_devs s")
  case None
  with assms show ?thesis by (simp add: ipc_wwan_add_vlan_def)
next
  case (Some devs)
  show ?thesis
  proof (cases "512 \<le> uint vid \<or> vid = WWAN_ROOT_VLAN_TAG")
    case True
    with assms Some show ?thesis
      by (auto simp: ipc_wwan_add_vlan_def WWAN_ROOT_VLAN_TAG_def split: if_splits)
  next
    case False
    with assms(2) Some have nr: "0 \<le> vlan_devs_nr s" "vlan_devs_nr s < int (length devs)"
      by (auto simp: ipc_wwan_add_vlan_def Let_def split: if_splits)
    from assms(1) Some have live: "\<forall>i < nat (vlan_devs_nr s). 0 \<le> ch_id (devs ! i)"
      using nr by (simp add: live_channels_valid_def live_sessions_def list_all_length)
    from assms(2) Some False nr live show ?thesis
      by (auto simp: ipc_wwan_add_vlan_def Let_def live_channels_valid_def live_sessions_def
          list_all_length nth_list_update nat_add_distrib split: if_splits)
  qed
qed

lemma remove_vlan_keeps_valid:
  assumes "live_channels_valid s"
    and "ipc_wwan_remove_vlan s vid = Some (r, s', ev)"
  shows "live_channels_valid s'"
proof (cases "s' = s")
  case True
  with assms show ?thesis by simp
next
  case False
  from assms(2) False obtain ch_nr devs devs2 where
    look: "ipc_wwan_get_vlan_devs_nr s vid = Some ch_nr" "0 \<le> ch_nr"
    and devs: "vlan_devs s = Some devs" "nat ch_nr < length devs"
    and re: "vlan_devs_realign (devs[nat ch_nr := (devs ! nat ch_nr)\<lparr>ch_id := - 1\<rparr>])
               (vlan_devs_nr s) (nat ch_nr) = Some devs2"
    and s': "s' = s\<lparr>vlan_devs := Some devs2, vlan_devs_nr := vlan_devs_nr s - 1\<rparr>"
    by (auto simp: ipc_wwan_remove_vlan_def Let_def split: option.splits if_splits)
  from look devs have scan: "vlan_devs_scan devs (vlan_devs_nr s) (uint vid) 0 = Some ch_nr"
    by (simp add: ipc_wwan_get_vlan_devs_nr_def)
  from scan_result [OF scan] look(2) have lt: "ch_nr < vlan_devs_nr s"
    by (auto simp: EINVAL_def)
  from realign_nth [OF re] have len2: "length devs2 = length devs"
    and nth2: "\<And>j. j < length devs \<Longrightarrow>
      devs2 ! j = (if nat ch_nr \<le> j \<and> int j < vlan_devs_nr s
                   then (devs[nat ch_nr := (devs ! nat ch_nr)\<lparr>ch_id := - 1\<rparr>]) ! Suc j
                   else (devs[nat ch_nr := (devs ! nat ch_nr)\<lparr>ch_id := - 1\<rparr>]) ! j)"
    by simp_all
  from assms(1) devs
  have live: "\<And>i. i < nat (vlan_devs_nr s) \<Longrightarrow> i < length devs \<Longrightarrow> 0 \<le> ch_id (devs ! i)"
    by (simp add: live_channels_valid_def live_sessions_def list_all_length)
  have "0 \<le> ch_id (devs2 ! i)" if i: "i < nat (vlan_devs_nr s - 1)" "i < length devs2" for i
  proof (cases "nat ch_nr \<le> i")
    case True
    with i lt have "int i < vlan_devs_nr s" by linarith
    moreover have "Suc i < length devs"
      using realign_Some_bound [OF re] lt look(2) i by simp
    ultimately show ?thesis using True i len2 nth2 [of i] live [of "Suc i"]
      by (simp add: nth_list_update)
  next
    case False
    with i len2 look(2) lt show ?thesis using nth2 [of i] live [of i]
      by (simp add: nth_list_update)
  qed
  with s' show ?thesis
    by (simp add: live_channels_valid_def live_sessions_def list_all_length)
qed

lemma add_vlan_returns:
  assumes "vlan_devs s = Some devs" "0 \<le> vlan_devs_nr s" "vlan_devs_nr s < int (length devs)"
  shows "\<exists>r s' ev. ipc_wwan_add_vlan wwan_open s vid = Some (r, s', ev)"
  using assms by (simp add: ipc_wwan_add_vlan_def Let_def)

lemma remove_vlan_returns:
  assumes "vlan_devs s = Some devs" "vlan_devs_nr s < int (length devs)"
  shows "\<exists>r s' ev. ipc_wwan_remove_vlan s vid = Some (r, s', ev)"
proof -
  from assms have b: "table_in_bounds s" by (simp add: table_in_bounds_def)
  from get_vlan_devs_nr_total [OF b] obtain ch_nr where
    look: "ipc_wwan_get_vlan_devs_nr s vid = Some ch_nr" by blast
  show ?thesis
  proof (cases "ch_nr < 0")
    case True
    with look show ?thesis by (simp add: ipc_wwan_remove_vlan_def)
  next
    case False
    from look assms have "vlan_devs_scan devs (vlan_devs_nr s) (uint vid) 0 = Some ch_nr"
      by (simp add: ipc_wwan_get_vlan_devs_nr_def)
    from scan_result [OF this] False have n: "nat ch_nr < length devs"
      by (auto simp: EINVAL_def)
    from assms(2) obtain devs2 where
      "vlan_devs_realign (devs[nat ch_nr := (devs ! nat ch_nr)\<lparr>ch_id := - 1\<rparr>])
         (vlan_devs_nr s) (nat ch_nr) = Some devs2"
      using realign_total [of "vlan_devs_nr s"
          "devs[nat ch_nr := (devs ! nat ch_nr)\<lparr>ch_id := - 1\<rparr>]" "nat ch_nr"]
      by auto
    with look False assms n show ?thesis
      by (simp add: ipc_wwan_remove_vlan_def Let_def)
  qed
qed

text \<open>
  C9: every add and every remove that returns keeps each of the first \<open>vlan_devs_nr\<close>
  entries of the table on a channel id \<open>\<ge> 0\<close>; and both do return whenever the array has
  a slot beyond the live sessions.
\<close>

theorem live_channels_valid_preserved:
  assumes "live_channels_valid s"
  shows "(ipc_wwan_add_vlan wwan_open s vid = Some (r, s', ev) \<longrightarrow> live_channels_valid s')
       \<and> (ipc_wwan_remove_vlan s vid' = Some (r', s'', ev') \<longrightarrow> live_channels_valid s'')
       \<and> (vlan_devs s = Some devs \<and> 0 \<le> vlan_devs_nr s \<and> vlan_devs_nr s < int (length devs) \<longrightarrow>
            ipc_wwan_add_vlan wwan_open s vid \<noteq> None \<and> ipc_wwan_remove_vlan s vid' \<noteq> None)"
proof (intro conjI impI)
  assume "ipc_wwan_add_vlan wwan_open s vid = Some (r, s', ev)"
  with assms show "live_channels_valid s'" by (rule add_vlan_keeps_valid)
next
  assume "ipc_wwan_remove_vlan s vid' = Some (r', s'', ev')"
  with assms show "live_channels_valid s''" by (rule remove_vlan_keeps_valid)
next
  assume a: "vlan_devs s = Some devs \<and> 0 \<le> vlan_devs_nr s \<and> vlan_devs_nr s < int (length devs)"
  then show "ipc_wwan_add_vlan wwan_open s vid \<noteq> None"
    using add_vlan_returns [of s devs wwan_open vid] by auto
  from a show "ipc_wwan_remove_vlan s vid' \<noteq> None"
    using remove_vlan_returns [of s devs vid'] by auto
qed

theorem live_channels_valid_preserved_witness:
  "live_channels_valid wwan_one_session
   \<and> ipc_wwan_add_vlan (open_const 5) wwan_one_session 2
       = Some (0,
               wwan_one_session
                 \<lparr>vlan_devs := Some [\<lparr>vlan_id = 1, ch_id = 4, stats = stats_zero\<rparr>,
                                     \<lparr>vlan_id = 2, ch_id = 5, stats = stats_zero\<rparr>, vlan_info_zero],
                  vlan_devs_nr := 2\<rparr>,
               [Imem_sys_wwan_open 2])
   \<and> live_channels_valid
        (wwan_one_session
           \<lparr>vlan_devs := Some [\<lparr>vlan_id = 1, ch_id = 4, stats = stats_zero\<rparr>,
                               \<lparr>vlan_id = 2, ch_id = 5, stats = stats_zero\<rparr>, vlan_info_zero],
            vlan_devs_nr := 2\<rparr>)
   \<and> ipc_wwan_remove_vlan wwan_one_session 1
       = Some (0,
               wwan_one_session
                 \<lparr>vlan_devs := Some [vlan_info_zero, vlan_info_zero, vlan_info_zero],
                  vlan_devs_nr := 0\<rparr>,
               [Imem_sys_wwan_close 1 4])
   \<and> live_channels_valid
        (wwan_one_session
           \<lparr>vlan_devs := Some [vlan_info_zero, vlan_info_zero, vlan_info_zero],
            vlan_devs_nr := 0\<rparr>)"
proof -
  let ?sa = "wwan_one_session
                 \<lparr>vlan_devs := Some [\<lparr>vlan_id = 1, ch_id = 4, stats = stats_zero\<rparr>,
                                     \<lparr>vlan_id = 2, ch_id = 5, stats = stats_zero\<rparr>, vlan_info_zero],
                  vlan_devs_nr := 2\<rparr>"
  let ?sr = "wwan_one_session
                 \<lparr>vlan_devs := Some [vlan_info_zero, vlan_info_zero, vlan_info_zero],
                  vlan_devs_nr := 0\<rparr>"
  have v: "live_channels_valid wwan_one_session"
    by (simp add: live_channels_valid_def live_sessions_def wwan_one_session_def)
  have a: "ipc_wwan_add_vlan (open_const 5) wwan_one_session 2
             = Some (0, ?sa, [Imem_sys_wwan_open 2])"
    by (simp add: ipc_wwan_add_vlan_def wwan_one_session_def Let_def open_const_def
        WWAN_ROOT_VLAN_TAG_def vlan_info_zero_def stats_zero_def)
  have r: "ipc_wwan_remove_vlan wwan_one_session 1
             = Some (0, ?sr, [Imem_sys_wwan_close 1 4])"
    by (simp add: ipc_wwan_remove_vlan_def ipc_wwan_get_vlan_devs_nr_def wwan_one_session_def
        Let_def vlan_devs_scan.simps vlan_devs_realign.simps vlan_info_zero_def stats_zero_def)
  have va: "live_channels_valid ?sa"
    by (rule live_channels_valid_preserved [OF v, THEN conjunct1, rule_format, OF a])
  have vr: "live_channels_valid ?sr"
    by (rule live_channels_valid_preserved
          [OF v, THEN conjunct2, THEN conjunct1, rule_format, OF r])
  from v a va r vr show ?thesis by simp
qed

section \<open>Statistics of an unknown session\<close>

text \<open>
  C10: when the tag derived from the session id (\<open>id + 1\<close>) belongs to no live session,
  \<^verbatim>\<open>ipc_wwan_update_stats\<close> returns before touching any counter: the whole state,
  with the counters of every session and of the root device, is what it was.
\<close>

theorem update_stats_unknown_session:
  assumes "table_in_bounds s"
    and "\<not> has_session s (ipc_wwan_mux_session_to_vlan_tag sid)"
  shows "ipc_wwan_update_stats s sid len tx = Some s"
  using get_vlan_devs_nr_absent [OF assms]
  by (simp add: ipc_wwan_update_stats_def EINVAL_def)

theorem update_stats_unknown_session_witness:
  "table_in_bounds wwan_one_session
   \<and> \<not> has_session wwan_one_session (ipc_wwan_mux_session_to_vlan_tag 6)
   \<and> ipc_wwan_update_stats wwan_one_session 6 100 True = Some wwan_one_session"
proof -
  have a: "table_in_bounds wwan_one_session"
    by (simp add: table_in_bounds_def wwan_one_session_def)
  have b: "\<not> has_session wwan_one_session (ipc_wwan_mux_session_to_vlan_tag 6)"
    by (simp add: has_session_def live_sessions_def wwan_one_session_def
        ipc_wwan_mux_session_to_vlan_tag_def IPC_MEM_VLAN_TO_SESSION_def)
  show ?thesis using a b update_stats_unknown_session [OF a b] by simp
qed

section \<open>Properties of the transmit path\<close>

lemma pull_header_is_ip:
  assumes "ipc_wwan_pull_header skb (Some b) = Some (hs, skb1, ip)" and "0 < hs"
  shows "ip = Some (header_proto skb = Some ETH_P_IP \<or> header_proto skb = Some ETH_P_IPV6)
       \<and> hs = (if protocol skb = ETH_P_8021Q then VLAN_ETH_HLEN else ETH_HLEN)
       \<and> hs \<le> skb_len skb
       \<and> skb_bytes skb1 = drop hs (skb_bytes skb)"
  using assms
  by (auto simp: ipc_wwan_pull_header_def header_proto_def skb_pull_def skb_bytes_def skb_len_def
      split: option.splits if_splits)

lemma transmit_send_not_exdev:
  "ipc_wwan_transmit_send wwan_transmit tag ch hs skb \<noteq> Some (- EXDEV, x, [Dev_kfree_skb y])"
  by (auto simp: ipc_wwan_transmit_send_def Let_def split: option.splits)

lemma transmit_resolved:
  assumes tag: "vlan_tci skb = Some tag" "tag \<noteq> 0"
    and pull: "ipc_wwan_pull_header skb (Some False) = Some (hs, skb1, ip)" "0 < hs"
    and look: "ipc_wwan_get_vlan_devs_nr s tag = Some idx" "0 \<le> idx" "idx < max_devs s"
    and devs: "vlan_devs s = Some devs" "0 \<le> ch_id (devs ! nat idx)"
  shows "ipc_wwan_transmit wwan_transmit dev_alloc_skb s skb =
           (if 0 < uint tag \<and> uint tag < 256 then
              (if ip \<noteq> Some True then Some (- EXDEV, Some skb1, [Dev_kfree_skb skb1])
               else ipc_wwan_transmit_send wwan_transmit (uint tag) (ch_id (devs ! nat idx)) hs skb1)
            else if 256 < uint tag \<and> uint tag < 512 then
              (if ip = Some True then Some (- EXDEV, Some skb1, [Dev_kfree_skb skb1])
               else
                 (case ipc_wwan_skb_align dev_alloc_skb skb1 of
                    None \<Rightarrow> None
                  | Some None \<Rightarrow> Some (- EINVAL, None, [])
                  | Some (Some skb2) \<Rightarrow>
                      ipc_wwan_transmit_send wwan_transmit (uint tag) (ch_id (devs ! nat idx)) hs skb2))
            else Some (- EXDEV, Some skb1, [Dev_kfree_skb skb1]))"
proof -
  from look devs have "vlan_devs_scan devs (vlan_devs_nr s) (uint tag) 0 = Some idx"
    by (simp add: ipc_wwan_get_vlan_devs_nr_def)
  from scan_result [OF this] look(2) have "nat idx < length devs"
    by (auto simp: EINVAL_def)
  with assms show ?thesis
    by (simp add: ipc_wwan_transmit_def WWAN_ROOT_VLAN_TAG_def)
qed

lemmas frame_defs = frame_def eth_header_def be16_bytes_def

lemmas skb_defs = ipc_wwan_pull_header_def eth_hdr_h_proto_def
  vlan_eth_hdr_h_vlan_encapsulated_proto_def be16_at_def skb_buf_def skb_bytes_def skb_len_def
  skb_pull_def ETH_HLEN_def VLAN_ETH_HLEN_def ETH_P_IP_def ETH_P_IPV6_def ETH_P_8021Q_def
  ETH_P_802_3_def

lemma vlan_tci_frame: "vlan_tci (frame proto tci hdr bytes) = tci"
  by (simp add: frame_def)

lemma pull_ip_type:
  "ipc_wwan_pull_header (frame ETH_P_IP (Some tag) [] (eth_header ETH_P_IP @ bytes)) (Some False)
     = Some (14, frame ETH_P_IP (Some tag) (eth_header ETH_P_IP) bytes, Some True)"
  by (simp add: frame_defs skb_defs)

lemma pull_arp_type:
  "ipc_wwan_pull_header (frame 0x0806 (Some tag) [] (eth_header 0x0806 @ bytes)) (Some False)
     = Some (14, frame 0x0806 (Some tag) (eth_header 0x0806) bytes, Some False)"
  by (simp add: frame_defs skb_defs)

lemma two_sessions_lookup:
  "ipc_wwan_get_vlan_devs_nr wwan_two_sessions 1 = Some 0"
  "ipc_wwan_get_vlan_devs_nr wwan_two_sessions 257 = Some 1"
  by (simp_all add: ipc_wwan_get_vlan_devs_nr_def wwan_two_sessions_def vlan_devs_scan.simps)

section \<open>Frames of the root device\<close>

text \<open>
  C3 as stated fails in its last part, that a frame with the root tag is reported as
  success: \<^verbatim>\<open>ipc_wwan_transmit\<close> returns \<^verbatim>\<open>-EINVAL\<close>, the value \<^verbatim>\<open>ret\<close> starts with,
  and not \<^verbatim>\<open>NETDEV_TX_OK\<close>.
\<close>

theorem transmit_root_tag_counterexample:
  "ipc_wwan_transmit (xmit_const 0) alloc_fails wwan_two_sessions
     (frame ETH_P_IP (Some 0) [] (eth_header ETH_P_IP @ [0x45, 0x00]))
   = Some (- 22, Some (frame ETH_P_IP (Some 0) [] (eth_header ETH_P_IP @ [0x45, 0x00])),
           [Dev_kfree_skb (frame ETH_P_IP (Some 0) [] (eth_header ETH_P_IP @ [0x45, 0x00]))])
   \<and> NETDEV_TX_OK = 0"
  by (simp add: ipc_wwan_transmit_def vlan_tci_frame WWAN_ROOT_VLAN_TAG_def EINVAL_def
      NETDEV_TX_OK_def)

text \<open>
  C3, as the code has it: a frame whose tag is the root tag 0 (or that carries no tag, which
  leaves the local \<^verbatim>\<open>tag\<close> at 0) is freed without being handed to the IPC layer, and
  \<^verbatim>\<open>ipc_wwan_transmit\<close> returns \<^verbatim>\<open>-EINVAL\<close>.
\<close>

theorem transmit_root_tag:
  assumes "vlan_tci skb = Some 0 \<or> vlan_tci skb = None"
  shows "ipc_wwan_transmit wwan_transmit dev_alloc_skb s skb
           = Some (- EINVAL, Some skb, [Dev_kfree_skb skb])"
  using assms by (auto simp: ipc_wwan_transmit_def WWAN_ROOT_VLAN_TAG_def)

theorem transmit_root_tag_witness:
  "(vlan_tci (frame ETH_P_IP (Some 0) [] (eth_header ETH_P_IP @ [0x45, 0x00])) = Some 0
      \<or> vlan_tci (frame ETH_P_IP (Some 0) [] (eth_header ETH_P_IP @ [0x45, 0x00])) = None)
   \<and> ipc_wwan_transmit (xmit_const 0) alloc_fails wwan_two_sessions
       (frame ETH_P_IP (Some 0) [] (eth_header ETH_P_IP @ [0x45, 0x00]))
     = Some (- EINVAL, Some (frame ETH_P_IP (Some 0) [] (eth_header ETH_P_IP @ [0x45, 0x00])),
             [Dev_kfree_skb (frame ETH_P_IP (Some 0) [] (eth_header ETH_P_IP @ [0x45, 0x00]))])"
proof -
  have h: "vlan_tci (frame ETH_P_IP (Some 0) [] (eth_header ETH_P_IP @ [0x45, 0x00])) = Some 0
      \<or> vlan_tci (frame ETH_P_IP (Some 0) [] (eth_header ETH_P_IP @ [0x45, 0x00])) = None"
    by (simp add: vlan_tci_frame)
  from transmit_root_tag [OF h, of "xmit_const 0" alloc_fails wwan_two_sessions] h
  show ?thesis by (rule conjI [rotated])
qed

section \<open>How a transmitted frame is classified\<close>

text \<open>
  C4 as stated fails in both directions: the frame is not IP-class exactly when the first
  nibble of the payload is 4 or 6. A frame of the IP session 1 with an IPv4 protocol field
  and a payload starting with nibble 0 is classified IP and handed to the IPC layer; a
  frame of the same session with an ARP protocol field and a payload starting with nibble
  4 is classified non-IP and dropped with \<^verbatim>\<open>-EXDEV\<close>.
\<close>

theorem transmit_classification_counterexample:
  "ipc_wwan_pull_header (frame ETH_P_IP (Some 1) [] (eth_header ETH_P_IP @ [0x00, 0x01]))
       (Some False)
     = Some (14, frame ETH_P_IP (Some 1) (eth_header ETH_P_IP) [0x00, 0x01], Some True)
   \<and> \<not> payload_nibble_is_ip (frame ETH_P_IP (Some 1) (eth_header ETH_P_IP) [0x00, 0x01])
   \<and> ipc_wwan_transmit (xmit_const 0) alloc_fails wwan_two_sessions
       (frame ETH_P_IP (Some 1) [] (eth_header ETH_P_IP @ [0x00, 0x01]))
     = Some (NETDEV_TX_OK, Some (frame ETH_P_IP (Some 1) (eth_header ETH_P_IP) [0x00, 0x01]),
             [Imem_sys_wwan_transmit 1 4
                (frame ETH_P_IP (Some 1) (eth_header ETH_P_IP) [0x00, 0x01])])
   \<and> ipc_wwan_pull_header (frame 0x0806 (Some 1) [] (eth_header 0x0806 @ [0x45, 0x00]))
       (Some False)
     = Some (14, frame 0x0806 (Some 1) (eth_header 0x0806) [0x45, 0x00], Some False)
   \<and> payload_nibble_is_ip (frame 0x0806 (Some 1) (eth_header 0x0806) [0x45, 0x00])
   \<and> ipc_wwan_transmit (xmit_const 0) alloc_fails wwan_two_sessions
       (frame 0x0806 (Some 1) [] (eth_header 0x0806 @ [0x45, 0x00]))
     = Some (- EXDEV, Some (frame 0x0806 (Some 1) (eth_header 0x0806) [0x45, 0x00]),
             [Dev_kfree_skb (frame 0x0806 (Some 1) (eth_header 0x0806) [0x45, 0x00])])"
proof -
  have d: "vlan_devs wwan_two_sessions
             = Some [\<lparr>vlan_id = 1, ch_id = 4, stats = stats_zero\<rparr>,
                     \<lparr>vlan_id = 257, ch_id = 7, stats = stats_zero\<rparr>, vlan_info_zero]"
    by (simp add: wwan_two_sessions_def)
  have m: "max_devs wwan_two_sessions = 3" by (simp add: wwan_two_sessions_def)
  have n1: "\<not> payload_nibble_is_ip (frame ETH_P_IP (Some 1) (eth_header ETH_P_IP) [0x00, 0x01])"
    by (simp add: payload_nibble_is_ip_def skb_bytes_def frame_def)
  have n2: "payload_nibble_is_ip (frame 0x0806 (Some 1) (eth_header 0x0806) [0x45, 0x00])"
    by (simp add: payload_nibble_is_ip_def skb_bytes_def frame_def)
  have t1: "ipc_wwan_transmit (xmit_const 0) alloc_fails wwan_two_sessions
       (frame ETH_P_IP (Some 1) [] (eth_header ETH_P_IP @ [0x00, 0x01]))
     = Some (NETDEV_TX_OK, Some (frame ETH_P_IP (Some 1) (eth_header ETH_P_IP) [0x00, 0x01]),
             [Imem_sys_wwan_transmit 1 4
                (frame ETH_P_IP (Some 1) (eth_header ETH_P_IP) [0x00, 0x01])])"
    using transmit_resolved [OF vlan_tci_frame _ pull_ip_type _ two_sessions_lookup(1) _ _ d,
        of "xmit_const 0" alloc_fails]
    by (simp add: m ipc_wwan_transmit_send_def xmit_const_def)
  have t2: "ipc_wwan_transmit (xmit_const 0) alloc_fails wwan_two_sessions
       (frame 0x0806 (Some 1) [] (eth_header 0x0806 @ [0x45, 0x00]))
     = Some (- EXDEV, Some (frame 0x0806 (Some 1) (eth_header 0x0806) [0x45, 0x00]),
             [Dev_kfree_skb (frame 0x0806 (Some 1) (eth_header 0x0806) [0x45, 0x00])])"
    using transmit_resolved [OF vlan_tci_frame _ pull_arp_type _ two_sessions_lookup(1) _ _ d,
        of "xmit_const 0" alloc_fails]
    by (simp add: m)
  show ?thesis
    by (rule conjI [OF pull_ip_type conjI [OF n1 conjI [OF t1
          conjI [OF pull_arp_type conjI [OF n2 t2]]]]])
qed

text \<open>
  C4, as the code has it: when \<^verbatim>\<open>ipc_wwan_pull_header\<close> strips a header, the frame is
  recorded as IP-class exactly when the protocol field of that header is
  \<^verbatim>\<open>ETH_P_IP\<close> or \<^verbatim>\<open>ETH_P_IPV6\<close>; the payload is not inspected. For a frame whose
  tag resolves to a live session, \<^verbatim>\<open>ipc_wwan_transmit\<close> drops the frame with
  \<^verbatim>\<open>-EXDEV\<close> exactly when this recorded class does not fit the range of the tag.
\<close>

theorem transmit_class_by_ethertype:
  assumes tag: "vlan_tci skb = Some tag" "tag \<noteq> 0"
    and pull: "ipc_wwan_pull_header skb (Some False) = Some (hs, skb1, ip)" "0 < hs"
    and look: "ipc_wwan_get_vlan_devs_nr s tag = Some idx" "0 \<le> idx" "idx < max_devs s"
    and devs: "vlan_devs s = Some devs" "0 \<le> ch_id (devs ! nat idx)"
  shows "ip = Some (header_proto skb = Some ETH_P_IP \<or> header_proto skb = Some ETH_P_IPV6)
       \<and> skb_bytes skb1 = drop hs (skb_bytes skb)
       \<and> (ipc_wwan_transmit wwan_transmit dev_alloc_skb s skb
             = Some (- EXDEV, Some skb1, [Dev_kfree_skb skb1])
          \<longleftrightarrow> \<not> ((0 < uint tag \<and> uint tag < 256 \<and> ip = Some True)
                \<or> (256 < uint tag \<and> uint tag < 512 \<and> ip \<noteq> Some True)))"
proof -
  note r = transmit_resolved [OF tag pull look devs, of wwan_transmit dev_alloc_skb]
  have "ipc_wwan_transmit wwan_transmit dev_alloc_skb s skb
             = Some (- EXDEV, Some skb1, [Dev_kfree_skb skb1])
          \<longleftrightarrow> \<not> ((0 < uint tag \<and> uint tag < 256 \<and> ip = Some True)
                \<or> (256 < uint tag \<and> uint tag < 512 \<and> ip \<noteq> Some True))"
    unfolding r
    by (auto simp: transmit_send_not_exdev split: option.splits)
  with pull_header_is_ip [OF pull] show ?thesis by simp
qed

theorem transmit_class_by_ethertype_witness:
  "header_proto (frame ETH_P_IP (Some 1) [] (eth_header ETH_P_IP @ [0x00, 0x01])) = Some ETH_P_IP
   \<and> ipc_wwan_transmit (xmit_const 0) alloc_fails wwan_two_sessions
         (frame ETH_P_IP (Some 1) [] (eth_header ETH_P_IP @ [0x00, 0x01]))
       \<noteq> Some (- EXDEV, Some (frame ETH_P_IP (Some 1) (eth_header ETH_P_IP) [0x00, 0x01]),
               [Dev_kfree_skb (frame ETH_P_IP (Some 1) (eth_header ETH_P_IP) [0x00, 0x01])])"
proof -
  have d: "vlan_devs wwan_two_sessions
             = Some [\<lparr>vlan_id = 1, ch_id = 4, stats = stats_zero\<rparr>,
                     \<lparr>vlan_id = 257, ch_id = 7, stats = stats_zero\<rparr>, vlan_info_zero]"
    by (simp add: wwan_two_sessions_def)
  have m: "max_devs wwan_two_sessions = 3" by (simp add: wwan_two_sessions_def)
  have "Some True = Some (header_proto (frame ETH_P_IP (Some 1) [] (eth_header ETH_P_IP @ [0x00, 0x01]))
              = Some ETH_P_IP
            \<or> header_proto (frame ETH_P_IP (Some 1) [] (eth_header ETH_P_IP @ [0x00, 0x01]))
              = Some ETH_P_IPV6)
       \<and> skb_bytes (frame ETH_P_IP (Some 1) (eth_header ETH_P_IP) [0x00, 0x01])
           = drop 14 (skb_bytes (frame ETH_P_IP (Some 1) [] (eth_header ETH_P_IP @ [0x00, 0x01])))
       \<and> (ipc_wwan_transmit (xmit_const 0) alloc_fails wwan_two_sessions
             (frame ETH_P_IP (Some 1) [] (eth_header ETH_P_IP @ [0x00, 0x01]))
             = Some (- EXDEV, Some (frame ETH_P_IP (Some 1) (eth_header ETH_P_IP) [0x00, 0x01]),
                 [Dev_kfree_skb (frame ETH_P_IP (Some 1) (eth_header ETH_P_IP) [0x00, 0x01])])
          \<longleftrightarrow> \<not> ((0 < uint (1 :: 16 word) \<and> uint (1 :: 16 word) < 256 \<and> Some True = Some True)
                \<or> (256 < uint (1 :: 16 word) \<and> uint (1 :: 16 word) < 512 \<and> Some True \<noteq> Some True)))"
    by (rule transmit_class_by_ethertype
          [OF vlan_tci_frame _ pull_ip_type _ two_sessions_lookup(1) _ _ d])
       (simp_all add: m)
  then show ?thesis
    by (simp add: header_proto_def frame_defs skb_defs)
qed

section \<open>Protocol class of a transmitted frame\<close>

text \<open>
  C5: when the tag of the frame resolves to a live session with a valid channel and the
  header was stripped, a tag in 1..255 with a frame classified non-IP, and a tag in
  257..511 with a frame classified IP, make \<^verbatim>\<open>ipc_wwan_transmit\<close> return
  \<^verbatim>\<open>-EXDEV\<close>; the frame is freed and the IPC layer is not called.
\<close>

theorem transmit_protocol_mismatch:
  assumes tag: "vlan_tci skb = Some tag"
    and pull: "ipc_wwan_pull_header skb (Some False) = Some (hs, skb1, Some is_ip)" "0 < hs"
    and look: "ipc_wwan_get_vlan_devs_nr s tag = Some idx" "0 \<le> idx" "idx < max_devs s"
    and devs: "vlan_devs s = Some devs" "0 \<le> ch_id (devs ! nat idx)"
    and mismatch: "(1 \<le> uint tag \<and> uint tag \<le> 255 \<and> \<not> is_ip)
                 \<or> (257 \<le> uint tag \<and> uint tag \<le> 511 \<and> is_ip)"
  shows "ipc_wwan_transmit wwan_transmit dev_alloc_skb s skb
           = Some (- EXDEV, Some skb1, [Dev_kfree_skb skb1])"
proof -
  from mismatch have "tag \<noteq> 0" by auto
  from transmit_resolved [OF tag this pull look devs, of wwan_transmit dev_alloc_skb] mismatch
  show ?thesis by auto
qed

theorem transmit_protocol_mismatch_witness:
  "ipc_wwan_transmit (xmit_const 0) alloc_fails wwan_two_sessions
       (frame 0x0806 (Some 1) [] (eth_header 0x0806 @ [0x00, 0x01]))
     = Some (- EXDEV, Some (frame 0x0806 (Some 1) (eth_header 0x0806) [0x00, 0x01]),
             [Dev_kfree_skb (frame 0x0806 (Some 1) (eth_header 0x0806) [0x00, 0x01])])
   \<and> ipc_wwan_transmit (xmit_const 0) alloc_fails wwan_two_sessions
       (frame ETH_P_IP (Some 257) [] (eth_header ETH_P_IP @ [0x45, 0x00]))
     = Some (- EXDEV, Some (frame ETH_P_IP (Some 257) (eth_header ETH_P_IP) [0x45, 0x00]),
             [Dev_kfree_skb (frame ETH_P_IP (Some 257) (eth_header ETH_P_IP) [0x45, 0x00])])"
proof -
  have d: "vlan_devs wwan_two_sessions
             = Some [\<lparr>vlan_id = 1, ch_id = 4, stats = stats_zero\<rparr>,
                     \<lparr>vlan_id = 257, ch_id = 7, stats = stats_zero\<rparr>, vlan_info_zero]"
    by (simp add: wwan_two_sessions_def)
  have m: "max_devs wwan_two_sessions = 3" by (simp add: wwan_two_sessions_def)
  have a: "ipc_wwan_transmit (xmit_const 0) alloc_fails wwan_two_sessions
       (frame 0x0806 (Some 1) [] (eth_header 0x0806 @ [0x00, 0x01]))
     = Some (- EXDEV, Some (frame 0x0806 (Some 1) (eth_header 0x0806) [0x00, 0x01]),
             [Dev_kfree_skb (frame 0x0806 (Some 1) (eth_header 0x0806) [0x00, 0x01])])"
    by (rule transmit_protocol_mismatch
          [OF vlan_tci_frame pull_arp_type _ two_sessions_lookup(1) _ _ d])
       (simp_all add: m)
  have b: "ipc_wwan_transmit (xmit_const 0) alloc_fails wwan_two_sessions
       (frame ETH_P_IP (Some 257) [] (eth_header ETH_P_IP @ [0x45, 0x00]))
     = Some (- EXDEV, Some (frame ETH_P_IP (Some 257) (eth_header ETH_P_IP) [0x45, 0x00]),
             [Dev_kfree_skb (frame ETH_P_IP (Some 257) (eth_header ETH_P_IP) [0x45, 0x00])])"
    by (rule transmit_protocol_mismatch
          [OF vlan_tci_frame pull_ip_type _ two_sessions_lookup(2) _ _ d])
       (simp_all add: m)
  from a b show ?thesis by (rule conjI)
qed

section \<open>Queue selection\<close>

lemma wwan_many_ip_init:
  "ipc_wwan_init 8 True True True (\<lambda>i. 2) 300 = Some wwan_many_ip"
  by (simp add: ipc_wwan_init_def wwan_many_ip_def stats_zero_def)

text \<open>
  The IP tags are 1..255, so a root device has at most 255 IP sessions. The bound on
  \<open>max_ip_devs\<close> in the property below cannot be dropped: \<^verbatim>\<open>ipc_wwan_init\<close> does
  not test \<^verbatim>\<open>max_sessions\<close>, and on a root device set up for 300 IP sessions the
  first test of \<^verbatim>\<open>ipc_wwan_select_queue\<close> gives the control tag 260 the queue 260.
\<close>

lemma select_queue_above_256:
  "max_ip_devs wwan_many_ip = 300
   \<and> ipc_wwan_select_queue wwan_many_ip (frame ETH_P_802_3 (Some 260) [] []) = 260"
  by (simp add: ipc_wwan_select_queue_def wwan_many_ip_def vlan_tci_frame
      IMEM_WWAN_DATA_VLAN_ID_START_def)

text \<open>
  C6: the queue is a function of the tag of the frame and of the configured \<open>max_ip_devs\<close>
  only. A tag \<open>T\<close> in 1..255 gets queue \<open>T\<close> when \<open>T \<le> max_ip_devs\<close> and the invalid
  queue \<open>0xFFFF\<close> otherwise, for every \<open>max_ip_devs\<close>. On a root device whose
  \<open>max_ip_devs\<close> does not reach the control tags (\<open>max_ip_devs \<le> 256\<close>), every tag in
  257..511 gets queue 0. Tag 0 gets queue 0.
\<close>

theorem select_queue_by_tag:
  "(vlan_tci skb = Some T \<and> 1 \<le> uint T \<and> uint T \<le> 255 \<longrightarrow>
      ipc_wwan_select_queue s skb = (if uint T \<le> max_ip_devs s then T else 0xFFFF))
   \<and> (vlan_tci skb = Some T \<and> 257 \<le> uint T \<and> uint T \<le> 511 \<and> max_ip_devs s \<le> 256 \<longrightarrow>
      ipc_wwan_select_queue s skb = 0)
   \<and> (vlan_tci skb = Some 0 \<longrightarrow> ipc_wwan_select_queue s skb = 0)
   \<and> (vlan_tci skb' = vlan_tci skb \<and> max_ip_devs s' = max_ip_devs s \<longrightarrow>
      ipc_wwan_select_queue s' skb' = ipc_wwan_select_queue s skb)"
proof -
  have "ipc_wwan_select_queue s' skb' = ipc_wwan_select_queue s skb"
    if "vlan_tci skb' = vlan_tci skb \<and> max_ip_devs s' = max_ip_devs s"
    using that by (cases "vlan_tci skb") (simp_all add: ipc_wwan_select_queue_def)
  then show ?thesis
    by (auto simp: ipc_wwan_select_queue_def IMEM_WWAN_DATA_VLAN_ID_START_def
        IMEM_WWAN_CTRL_VLAN_ID_START_def IMEM_WWAN_CTRL_VLAN_ID_END_def WWAN_DEFAULT_TXQ_def
        WWAN_ROOT_VLAN_TAG_def)
qed

theorem select_queue_by_tag_witness:
  "(vlan_tci (frame ETH_P_IP (Some 1) [] []) = Some 1 \<and> 1 \<le> uint (1 :: 16 word)
      \<and> uint (1 :: 16 word) \<le> 255)
   \<and> ipc_wwan_select_queue wwan_two_sessions (frame ETH_P_IP (Some 1) [] []) = 1
   \<and> (vlan_tci (frame ETH_P_IP (Some 2) [] []) = Some 2 \<and> 1 \<le> uint (2 :: 16 word)
      \<and> uint (2 :: 16 word) \<le> 255)
   \<and> ipc_wwan_select_queue wwan_two_sessions (frame ETH_P_IP (Some 2) [] []) = 0xFFFF
   \<and> (vlan_tci (frame ETH_P_802_3 (Some 257) [] []) = Some 257 \<and> 257 \<le> uint (257 :: 16 word)
      \<and> uint (257 :: 16 word) \<le> 511 \<and> max_ip_devs wwan_two_sessions \<le> 256)
   \<and> ipc_wwan_select_queue wwan_two_sessions (frame ETH_P_802_3 (Some 257) [] []) = 0
   \<and> vlan_tci (frame ETH_P_802_3 (Some 0) [] []) = Some 0
   \<and> ipc_wwan_select_queue wwan_two_sessions (frame ETH_P_802_3 (Some 0) [] []) = 0"
proof -
  have m: "max_ip_devs wwan_two_sessions = 1" by (simp add: wwan_two_sessions_def)
  have h1: "vlan_tci (frame ETH_P_IP (Some 1) [] []) = Some 1 \<and> 1 \<le> uint (1 :: 16 word)
      \<and> uint (1 :: 16 word) \<le> 255"
    by (simp add: vlan_tci_frame)
  have h2: "vlan_tci (frame ETH_P_IP (Some 2) [] []) = Some 2 \<and> 1 \<le> uint (2 :: 16 word)
      \<and> uint (2 :: 16 word) \<le> 255"
    by (simp add: vlan_tci_frame)
  have h3: "vlan_tci (frame ETH_P_802_3 (Some 257) [] []) = Some 257
      \<and> 257 \<le> uint (257 :: 16 word) \<and> uint (257 :: 16 word) \<le> 511
      \<and> max_ip_devs wwan_two_sessions \<le> 256"
    by (simp add: vlan_tci_frame m)
  have h4: "vlan_tci (frame ETH_P_802_3 (Some 0) [] []) = Some 0"
    by (simp add: vlan_tci_frame)
  have c1: "ipc_wwan_select_queue wwan_two_sessions (frame ETH_P_IP (Some 1) [] []) = 1"
    using select_queue_by_tag [of "frame ETH_P_IP (Some 1) [] []" 1 wwan_two_sessions,
        THEN conjunct1, rule_format, OF h1]
    by (simp add: m)
  have c2: "ipc_wwan_select_queue wwan_two_sessions (frame ETH_P_IP (Some 2) [] []) = 0xFFFF"
    using select_queue_by_tag [of "frame ETH_P_IP (Some 2) [] []" 2 wwan_two_sessions,
        THEN conjunct1, rule_format, OF h2]
    by (simp add: m)
  have c3: "ipc_wwan_select_queue wwan_two_sessions (frame ETH_P_802_3 (Some 257) [] []) = 0"
    by (rule select_queue_by_tag [of "frame ETH_P_802_3 (Some 257) [] []" 257 wwan_two_sessions,
        THEN conjunct2, THEN conjunct1, rule_format, OF h3])
  have c4: "ipc_wwan_select_queue wwan_two_sessions (frame ETH_P_802_3 (Some 0) [] []) = 0"
    using select_queue_by_tag [of "frame ETH_P_802_3 (Some 0) [] []" _ wwan_two_sessions,
        THEN conjunct2, THEN conjunct2, THEN conjunct1, rule_format, OF h4]
    by simp
  show ?thesis
    by (rule conjI [OF h1 conjI [OF c1 conjI [OF h2 conjI [OF c2
          conjI [OF h3 conjI [OF c3 conjI [OF h4 c4]]]]]]])
qed

section \<open>Protocol of a received frame\<close>

lemma be16_roundtrip:
  "push_bit 8 (ucast (ucast (drop_bit 8 w) :: 8 word)) OR ucast (ucast w :: 8 word) = (w :: 16 word)"
  by (rule bit_word_eqI) (auto simp: bit_simps)

lemma be16_at_bytes:
  "length pre = off \<Longrightarrow> be16_at (pre @ be16_bytes w @ post) off = Some w"
  by (simp add: be16_at_def be16_bytes_def nth_append be16_roundtrip)

lemma length_ethhdr: "length (ipc_wwan_ethhdr s p) = ETH_HLEN"
  by (simp add: ipc_wwan_ethhdr_def Let_def ETH_ALEN_def ETH_HLEN_def be16_bytes_def)

lemma ethhdr_h_proto:
  "length pre = off \<Longrightarrow> be16_at (pre @ ipc_wwan_ethhdr s p @ post) (off + 12) = Some p"
  using be16_at_bytes [of "pre @ map (dev_addr s) [0..<ETH_ALEN] @
      (map (dev_addr s) [0..<ETH_ALEN])[ETH_ALEN - 1 := (map (dev_addr s) [0..<ETH_ALEN] ! (ETH_ALEN - 1)) XOR 0x01]"
      "off + 12" p post]
  by (simp add: ipc_wwan_ethhdr_def Let_def ETH_ALEN_def)

lemma update_stats_returns:
  assumes "table_in_bounds s"
  shows "\<exists>s'. ipc_wwan_update_stats s sid len tx = Some s'"
proof -
  from get_vlan_devs_nr_total [OF assms] obtain idx where
    look: "ipc_wwan_get_vlan_devs_nr s (ipc_wwan_mux_session_to_vlan_tag sid) = Some idx"
    by blast
  show ?thesis
  proof (cases "idx < 0 \<or> max_devs s \<le> idx")
    case True
    with look show ?thesis by (auto simp: ipc_wwan_update_stats_def)
  next
    case False
    with look obtain devs where devs: "vlan_devs s = Some devs"
      by (cases "vlan_devs s") (auto simp: ipc_wwan_get_vlan_devs_nr_def EINVAL_def)
    with look have "vlan_devs_scan devs (vlan_devs_nr s)
        (uint (ipc_wwan_mux_session_to_vlan_tag sid)) 0 = Some idx"
      by (simp add: ipc_wwan_get_vlan_devs_nr_def)
    from scan_result [OF this] False have "nat idx < length devs"
      by (auto simp: EINVAL_def)
    with look devs False show ?thesis
      by (simp add: ipc_wwan_update_stats_def Let_def)
  qed
qed

text \<open>
  C8: for a payload behind the \<^verbatim>\<open>ETH_HLEN\<close> bytes of header room,
  \<^verbatim>\<open>ipc_wwan_receive\<close> delivers a frame whose Ethernet header carries
  \<^verbatim>\<open>ETH_P_802_3\<close> when the control flag \<open>dss\<close> is set, whatever the payload; with the
  flag clear it carries \<^verbatim>\<open>ETH_P_IP\<close> when the first nibble of the payload is 4,
  \<^verbatim>\<open>ETH_P_IPV6\<close> when it is 6, and \<^verbatim>\<open>ETH_P_802_3\<close> otherwise.
\<close>

theorem receive_ethertype:
  assumes d: "data skb = Some d" and len: "ETH_HLEN < length d" and s: "table_in_bounds s"
  shows "\<exists>s' skb'.
           ipc_wwan_receive proto_of tag0 s skb dss = Some (0, s', [Netif_rx_ni skb'])
         \<and> eth_hdr_h_proto skb' =
             Some (if dss then ETH_P_802_3
                   else if (d ! ETH_HLEN) AND 0xF0 = 0x40 then ETH_P_IP
                   else if (d ! ETH_HLEN) AND 0xF0 = 0x60 then ETH_P_IPV6
                   else ETH_P_802_3)
         \<and> skb_bytes skb' = drop ETH_HLEN d"
proof -
  let ?h_proto = "if \<not> dss then
        (if (d ! ETH_HLEN) AND 0xF0 = 0x40 then ETH_P_IP
         else if (d ! ETH_HLEN) AND 0xF0 = 0x60 then ETH_P_IPV6
         else ETH_P_802_3)
      else ETH_P_802_3"
  let ?hdr = "ipc_wwan_ethhdr s ?h_proto"
  let ?skb1 = "skb\<lparr>data := Some (?hdr @ drop ETH_HLEN d), tail_room := tail_room skb\<rparr>"
  let ?skb3 = "skb\<lparr>data := Some (drop ETH_HLEN d), tail_room := tail_room skb,
                    mac_header := length (head_room skb),
                    head_room := head_room skb @ ?hdr,
                    protocol := proto_of ?skb1\<rparr>"
  have nib: "(d @ tail_room skb) ! ETH_HLEN = d ! ETH_HLEN"
    using len by (simp add: nth_append)
  from update_stats_returns [OF s] obtain s' where
    u: "ipc_wwan_update_stats s
          (ipc_wwan_vlan_to_mux_session_id (case vlan_tci skb of Some tci \<Rightarrow> tci | None \<Rightarrow> tag0))
          (of_nat (length d - ETH_HLEN)) False = Some s'"
    by blast
  have run: "ipc_wwan_receive proto_of tag0 s skb dss = Some (0, s', [Netif_rx_ni ?skb3])"
    unfolding ipc_wwan_receive_def
    using d len u
    by (simp add: Let_def nib length_ethhdr eth_type_trans_def skb_pull_def skb_len_def
        skb_bytes_def split del: if_split cong: if_cong)
  have "eth_hdr_h_proto ?skb3 = Some ?h_proto"
    unfolding eth_hdr_h_proto_def skb_buf_def
    using ethhdr_h_proto [of "head_room skb" "length (head_room skb)" s ?h_proto
        "skb_bytes ?skb3 @ tail_room ?skb3"]
    by (simp split del: if_split)
  moreover have "?h_proto =
      (if dss then ETH_P_802_3
       else if (d ! ETH_HLEN) AND 0xF0 = 0x40 then ETH_P_IP
       else if (d ! ETH_HLEN) AND 0xF0 = 0x60 then ETH_P_IPV6
       else ETH_P_802_3)"
    by simp
  ultimately have e: "eth_hdr_h_proto ?skb3 =
      Some (if dss then ETH_P_802_3
            else if (d ! ETH_HLEN) AND 0xF0 = 0x40 then ETH_P_IP
            else if (d ! ETH_HLEN) AND 0xF0 = 0x60 then ETH_P_IPV6
            else ETH_P_802_3)"
    by (simp only:)
  have b: "skb_bytes ?skb3 = drop ETH_HLEN d" by (simp add: skb_bytes_def)
  show ?thesis
    by (rule exI [of _ s'], rule exI [of _ ?skb3]) (rule conjI [OF run conjI [OF e b]])
qed

theorem receive_ethertype_witness:
  "data (frame 0 (Some 1) [] (eth_header 0 @ [0x45, 0x00])) = Some (eth_header 0 @ [0x45, 0x00])
   \<and> ETH_HLEN < length (eth_header 0 @ [0x45, 0x00 :: 8 word])
   \<and> table_in_bounds wwan_two_sessions
   \<and> (\<exists>s' skb'.
         ipc_wwan_receive proto_of_hdr 0 wwan_two_sessions
           (frame 0 (Some 1) [] (eth_header 0 @ [0x45, 0x00])) True
           = Some (0, s', [Netif_rx_ni skb'])
       \<and> eth_hdr_h_proto skb' = Some ETH_P_802_3
       \<and> skb_bytes skb' = [0x45, 0x00])
   \<and> (\<exists>s' skb'.
         ipc_wwan_receive proto_of_hdr 0 wwan_two_sessions
           (frame 0 (Some 1) [] (eth_header 0 @ [0x45, 0x00])) False
           = Some (0, s', [Netif_rx_ni skb'])
       \<and> eth_hdr_h_proto skb' = Some ETH_P_IP
       \<and> skb_bytes skb' = [0x45, 0x00])"
proof -
  have d: "data (frame 0 (Some 1) [] (eth_header 0 @ [0x45, 0x00]))
             = Some (eth_header 0 @ [0x45, 0x00])"
    by (simp add: frame_def)
  have l: "ETH_HLEN < length (eth_header 0 @ [0x45, 0x00 :: 8 word])"
    by (simp add: frame_defs ETH_HLEN_def)
  have b: "table_in_bounds wwan_two_sessions"
    by (simp add: table_in_bounds_def wwan_two_sessions_def)
  from receive_ethertype [OF d l b, of proto_of_hdr 0 True]
  have c: "\<exists>s' skb'.
         ipc_wwan_receive proto_of_hdr 0 wwan_two_sessions
           (frame 0 (Some 1) [] (eth_header 0 @ [0x45, 0x00])) True
           = Some (0, s', [Netif_rx_ni skb'])
       \<and> eth_hdr_h_proto skb' = Some ETH_P_802_3
       \<and> skb_bytes skb' = [0x45, 0x00]"
    by (simp add: frame_defs ETH_HLEN_def)
  from receive_ethertype [OF d l b, of proto_of_hdr 0 False]
  have n: "\<exists>s' skb'.
         ipc_wwan_receive proto_of_hdr 0 wwan_two_sessions
           (frame 0 (Some 1) [] (eth_header 0 @ [0x45, 0x00])) False
           = Some (0, s', [Netif_rx_ni skb'])
       \<and> eth_hdr_h_proto skb' = Some ETH_P_IP
       \<and> skb_bytes skb' = [0x45, 0x00]"
    by (simp add: frame_defs ETH_HLEN_def)
  show ?thesis
    by (rule conjI [OF d conjI [OF l conjI [OF b conjI [OF c n]]]])
qed

end
